theory Spec2Isabelle
  imports Main "HOL-Library.Multiset" "HOL-Library.Char_ord" "HOL-Library.List_Lexorder"
begin

section \<open>Hourly timelapse builder (mp4_builder.py)\<close>

text \<open>
  Timestamps (file modification times, \<open>datetime.timestamp()\<close>) are whole seconds of
  local time, as \<open>int\<close>; local days are 86400 seconds long. A day \<open>YYYYMMDD\<close> is its day
  number \<open>d\<close>, counted from 1970-01-01: its midnight is \<open>86400 * d\<close>, the previous day is
  \<open>d - 1\<close>. The days a \<open>datetime\<close> can hold run from \<open>MIN_DAY\<close> (0001-01-01) to
  \<open>MAX_DAY\<close> (9999-12-31); arithmetic that leaves this range raises \<open>OverflowError\<close>.
  (What \<open>timestamp()\<close> does within a day of either end depends on the time zone and is
  not modelled.) A path below the archive root is the triple of day, camera directory
  and file name.
\<close>

type_synonym timestamp = int
type_synonym path = "int \<times> string \<times> string"
type_synonym frame = "path \<times> timestamp"

definition MIN_DAY :: int where
  "MIN_DAY = - 719162"

definition MAX_DAY :: int where
  "MAX_DAY = 2932896"

text \<open>
  The name of a day directory or the \<open>--day\<close> argument, with what
  \<open>datetime.strptime(name, "%Y%m%d")\<close> makes of it: \<open>Date name d\<close> is a name that parses,
  to the day with number \<open>d\<close>; \<open>NotADate name\<close> is a name for which \<open>strptime\<close> raises
  \<open>ValueError\<close> (such as \<open>20241301\<close>).
\<close>

datatype day_name = Date string int | NotADate string

fun day_str :: "day_name \<Rightarrow> string" where
  "day_str (Date name d) = name"
| "day_str (NotADate name) = name"

subsection \<open>Configuration\<close>

definition OVERLAP_MINUTES :: int where
  "OVERLAP_MINUTES = 5"

definition MIN_FRAMES_DEFAULT :: int where
  "MIN_FRAMES_DEFAULT = 30"

definition JPEG_EXTS :: "string list" where
  "JPEG_EXTS = [''.jpg'', ''.jpeg'', ''.JPG'', ''.JPEG'']"

definition CAMERA_MAP :: "(string \<times> string) list" where
  "CAMERA_MAP =
     [(''camera1'', ''backwindows''), (''camera2'', ''basementWoodRm''),
      (''camera3'', ''driveway''), (''camera4'', ''frontDoorInside''),
      (''camera5'', ''garagedoors''), (''camera6'', ''livingRoom'')]"

text \<open>
  The configuration object without \<open>archive_root\<close> (paths are relative to it) and
  without \<open>output_fps\<close>: the encoding parameters are handed to the encoder unchanged and
  are part of what the encoder does.
\<close>

record Config =
  day :: "day_name option"
  cameras :: "string list"
  scale_max_width :: int
  crf :: int
  preset :: string
  min_frames :: int
  verbose :: bool

subsection \<open>Exceptions\<close>

text \<open>
  \<open>RuntimeError\<close> is raised by \<open>run_ffmpeg_concat\<close> with the exit status and the captured
  error output; \<open>OSError\<close> stands for every operating system error but
  \<open>FileNotFoundError\<close>, which has a handler of its own in the source;
  \<open>ValueError\<close> is raised by \<open>strptime\<close> and \<open>OverflowError\<close> by date arithmetic;
  \<open>KeyboardInterrupt\<close> is an interruption of the run, \<open>SystemExit\<close> is raised by
  \<open>require_ffmpeg\<close>. \<open>except Exception\<close> catches the first five and neither of the
  last two.
\<close>

datatype exn =
  RuntimeError int string | OSError | FileNotFoundError | ValueError | OverflowError
  | KeyboardInterrupt | SystemExit string

fun is_Exception :: "exn \<Rightarrow> bool" where
  "is_Exception KeyboardInterrupt = False"
| "is_Exception (SystemExit msg) = False"
| "is_Exception _ = True"

subsection \<open>The file system: camera directories\<close>

text \<open>
  A directory entry as \<open>os.scandir\<close> yields it: its name, the answer of \<open>is_file()\<close>,
  and the result of \<open>stat()\<close>, which is the modification time or fails (\<open>None\<close>).
  A directory is missing, or exists and disappears before it is scanned (\<open>Vanished\<close>:
  \<open>os.scandir\<close> raises \<open>FileNotFoundError\<close>), or exists and cannot be read
  (\<open>Unreadable\<close>: \<open>os.scandir\<close> raises another \<open>OSError\<close>), or is listed. In
  \<open>Listing es\<close> the scan yields the entries \<open>es\<close> and \<open>is_file()\<close> answers for each of
  them; in \<open>Aborted es name\<close> the scan yields \<open>es\<close> and then an entry \<open>name\<close> whose
  \<open>is_file()\<close> raises \<open>OSError\<close> (a symbolic link that cannot be followed, say).
\<close>

record entry =
  e_name :: string
  e_is_file :: bool
  e_stat :: "timestamp option"

datatype scan_item = Entry entry | BrokenEntry string

datatype dir_state =
  Missing | Vanished | Unreadable | Listing "entry list" | Aborted "entry list" string

fun dir_exists :: "dir_state \<Rightarrow> bool" where
  "dir_exists Missing = False"
| "dir_exists _ = True"

fun scandir :: "dir_state \<Rightarrow> exn + scan_item list" where
  "scandir Missing = Inl FileNotFoundError"
| "scandir Vanished = Inl FileNotFoundError"
| "scandir Unreadable = Inl OSError"
| "scandir (Listing es) = Inr (map Entry es)"
| "scandir (Aborted es name) = Inr (map Entry es @ [BrokenEntry name])"

subsection \<open>Frame selector\<close>

definition endswith :: "string \<Rightarrow> string \<Rightarrow> bool" where
  "endswith s suf \<longleftrightarrow> length suf \<le> length s \<and> drop (length s - length suf) s = suf"

definition endswith_any :: "string \<Rightarrow> string list \<Rightarrow> bool" where
  "endswith_any s sufs \<longleftrightarrow> list_ex (endswith s) sufs"

text \<open>
  \<open>hour_window\<close>: the start of the hour and the start plus one hour and the overlap.
  The sum raises \<open>OverflowError\<close> when it lies after the last \<open>datetime\<close>,
  9999-12-31 23:59:59.
\<close>

definition start_dt :: "int \<Rightarrow> nat \<Rightarrow> timestamp" where
  "start_dt d hour = 86400 * d + 3600 * int hour"

definition end_dt_full :: "int \<Rightarrow> nat \<Rightarrow> timestamp" where
  "end_dt_full d hour = start_dt d hour + (3600 + 60 * OVERLAP_MINUTES)"

definition hour_window :: "int \<Rightarrow> nat \<Rightarrow> exn + timestamp \<times> timestamp" where
  "hour_window d hour =
     (if 86400 * (MAX_DAY + 1) \<le> end_dt_full d hour then Inl OverflowError
      else Inr (start_dt d hour, end_dt_full d hour))"

text \<open>
  The body of the \<open>for entry in it\<close> loop, one \<open>continue\<close> per test. Only
  \<open>entry.stat()\<close> is inside a \<open>try\<close>: an \<open>is_file()\<close> that raises ends the loop.
\<close>

fun scan_loop ::
    "int \<times> string \<Rightarrow> timestamp \<Rightarrow> timestamp \<Rightarrow> scan_item list \<Rightarrow> frame list
       \<Rightarrow> exn + frame list" where
  "scan_loop dp start_ts end_ts [] out = Inr out"
| "scan_loop dp start_ts end_ts (BrokenEntry name # es) out = Inl OSError"
| "scan_loop dp start_ts end_ts (Entry e # es) out =
     (if \<not> e_is_file e then scan_loop dp start_ts end_ts es out
      else if \<not> endswith_any (e_name e) JPEG_EXTS then scan_loop dp start_ts end_ts es out
      else (case e_stat e of
              None \<Rightarrow> scan_loop dp start_ts end_ts es out
            | Some mt \<Rightarrow>
                if mt < start_ts \<or> mt \<ge> end_ts then scan_loop dp start_ts end_ts es out
                else scan_loop dp start_ts end_ts es (out @ [((fst dp, snd dp, e_name e), mt)])))"

definition list_jpgs_in_range :: "int \<times> string \<Rightarrow> dir_state \<Rightarrow> timestamp \<Rightarrow> timestamp \<Rightarrow> exn + frame list" where
  "list_jpgs_in_range dp dir start_ts end_ts =
     (if \<not> dir_exists dir then Inr []
      else (case scandir dir of
              Inl FileNotFoundError \<Rightarrow> Inr []
            | Inl e \<Rightarrow> Inl e
            | Inr es \<Rightarrow>
                (case scan_loop dp start_ts end_ts es [] of
                   Inl FileNotFoundError \<Rightarrow> Inr []
                 | Inl e \<Rightarrow> Inl e
                 | Inr out \<Rightarrow> Inr (sort_key snd out))))"

subsection \<open>The world the builder acts on\<close>

text \<open>
  The encoder is external: \<open>ffmpeg n manifest\<close> is what its \<open>n\<close>-th run of the process does
  on the frame list \<open>manifest\<close>. It exits with a status, the file it left at its output
  path (if any) and its error output, or the run is interrupted while it works.
  An artifact's modification time is the one the encoder gave its output file, which
  \<open>shutil.copy2\<close> keeps.
\<close>

record file_node =
  f_mtime :: timestamp
  f_data :: "nat list"

datatype enc_outcome = Exited int "file_node option" string | Interrupted "file_node option"

datatype tmp_file = Manifest "path list" | Video file_node

type_synonym tmp_dir = "(string \<times> tmp_file) list"

datatype log_event =
    LogSkipFew string nat int
  | LogOK path nat
  | LogFfmpeg "path list"
  | LogSkipUpToDate string timestamp timestamp
  | LogSkipNoFrames string timestamp timestamp
  | LogBuildCurrent string timestamp
  | LogErrBuilding string exn
  | LogErrMissingCameraDir string string
  | LogCamera string string
  | LogHelp
  | LogErrNoCamera
  | LogErrNoRoot
  | LogErrNoDays
  | LogDone nat

text \<open>
  \<open>day_dirs\<close> are the names of the directories below the archive root that are eight
  digits long, \<open>dirs w d camera\<close> is the camera directory of day \<open>d\<close> (its frames; the
  builder only reads it), \<open>other_dirs w name camera\<close> the camera directory below a
  directory whose name is not a date, \<open>artifacts\<close> the files at the final paths \<open><camera>-HH00.mp4\<close> (no such name
  has a JPEG suffix), \<open>tmp_dirs\<close> the temporary work areas that exist, the newest first,
  \<open>enc_calls\<close> the frame lists the encoder has been run on, \<open>stderr\<close> what was printed.
  \<open>exists()\<close> of a path and \<open>stat()\<close> of an artifact answer without an error.
\<close>

record world =
  root_exists :: bool
  day_dirs :: "day_name list"
  dirs :: "int \<Rightarrow> string \<Rightarrow> dir_state"
  other_dirs :: "string \<Rightarrow> string \<Rightarrow> dir_state"
  artifacts :: "path \<rightharpoonup> file_node"
  tmp_dirs :: "tmp_dir list"
  enc_calls :: "path list list"
  stderr :: "log_event list"

definition eprint :: "log_event \<Rightarrow> world \<Rightarrow> world" where
  "eprint ev w = w\<lparr>stderr := stderr w @ [ev]\<rparr>"

definition tmp_put :: "string \<Rightarrow> tmp_file \<Rightarrow> world \<Rightarrow> world" where
  "tmp_put name f w =
     (case tmp_dirs w of
        [] \<Rightarrow> w
      | td # tds \<Rightarrow> w\<lparr>tmp_dirs := ((name, f) # td) # tds\<rparr>)"

definition tmp_get :: "string \<Rightarrow> world \<Rightarrow> tmp_file option" where
  "tmp_get name w = (case tmp_dirs w of [] \<Rightarrow> None | td # tds \<Rightarrow> map_of td name)"

subsection \<open>Encoder invocation\<close>

definition write_concat_list :: "frame list \<Rightarrow> world \<Rightarrow> world" where
  "write_concat_list frames w = tmp_put ''frames.txt'' (Manifest (map fst frames)) w"

definition run_ffmpeg_concat ::
    "(nat \<Rightarrow> path list \<Rightarrow> enc_outcome) \<Rightarrow> bool \<Rightarrow> world \<Rightarrow> (exn + unit) \<times> world" where
  "run_ffmpeg_concat ffmpeg verb w =
     (let manifest = (case tmp_get ''frames.txt'' w of Some (Manifest m) \<Rightarrow> m | _ \<Rightarrow> []);
          w1 = (if verb then eprint (LogFfmpeg manifest) w else w);
          w2 = w1\<lparr>enc_calls := enc_calls w1 @ [manifest]\<rparr>
      in (case ffmpeg (length (enc_calls w)) manifest of
            Interrupted out \<Rightarrow>
              (Inl KeyboardInterrupt,
               (case out of None \<Rightarrow> w2 | Some f \<Rightarrow> tmp_put ''out.mp4'' (Video f) w2))
          | Exited rc out err \<Rightarrow>
              (let w3 = (case out of None \<Rightarrow> w2 | Some f \<Rightarrow> tmp_put ''out.mp4'' (Video f) w2)
               in if rc \<noteq> 0 then (Inl (RuntimeError rc err), w3) else (Inr (), w3))))"

definition copy2 :: "path \<Rightarrow> world \<Rightarrow> (exn + unit) \<times> world" where
  "copy2 out_mp4 w =
     (case tmp_get ''out.mp4'' w of
        Some (Video f) \<Rightarrow> (Inr (), w\<lparr>artifacts := (artifacts w)(out_mp4 \<mapsto> f)\<rparr>)
      | _ \<Rightarrow> (Inl FileNotFoundError, w))"

definition newest_mtime :: "frame list \<Rightarrow> timestamp option" where
  "newest_mtime frames = (if frames = [] then None else Some (snd (last frames)))"

definition should_skip_past_hour :: "path \<Rightarrow> frame list \<Rightarrow> bool \<Rightarrow> world \<Rightarrow> bool \<times> world" where
  "should_skip_past_hour out_mp4 frames verb w =
     (case artifacts w out_mp4 of
        None \<Rightarrow> (False, w)
      | Some f \<Rightarrow>
          (case newest_mtime frames of
             None \<Rightarrow> (True, w)
           | Some src_newest \<Rightarrow>
               if f_mtime f \<ge> src_newest
               then (True, if verb
                           then eprint (LogSkipUpToDate (snd (snd out_mp4)) (f_mtime f) src_newest) w
                           else w)
               else (False, w)))"

text \<open>
  The \<open>with tempfile.TemporaryDirectory()\<close> block: the work area is created, the body
  runs up to its first exception, and the work area is removed however the body ends.
  \<open>out_mp4.parent\<close> is the camera directory, which exists, so \<open>mkdir\<close> changes nothing.
\<close>

definition build_hour_mp4 ::
    "(nat \<Rightarrow> path list \<Rightarrow> enc_outcome) \<Rightarrow> path \<Rightarrow> frame list \<Rightarrow> Config \<Rightarrow> world
       \<Rightarrow> (exn + unit) \<times> world" where
  "build_hour_mp4 ffmpeg out_mp4 frames cfg w =
     (if int (length frames) < min_frames cfg
      then (Inr (), eprint (LogSkipFew (snd (snd out_mp4)) (length frames) (min_frames cfg)) w)
      else
        (let w1 = w\<lparr>tmp_dirs := [] # tmp_dirs w\<rparr>;
             w2 = write_concat_list frames w1;
             (r, w3) = run_ffmpeg_concat ffmpeg (verbose cfg) w2;
             (r', w4) = (case r of Inl e \<Rightarrow> (Inl e, w3) | Inr u \<Rightarrow> copy2 out_mp4 w3);
             w5 = w4\<lparr>tmp_dirs := tl (tmp_dirs w4)\<rparr>
         in (case r' of
               Inl e \<Rightarrow> (Inl e, w5)
             | Inr u \<Rightarrow> (Inr (), eprint (LogOK out_mp4 (length frames)) w5))))"

subsection \<open>Window planner and rebuild decision\<close>

definition two_digits :: "nat \<Rightarrow> string" where
  "two_digits n = [''0123456789'' ! ((n div 10) mod 10), ''0123456789'' ! (n mod 10)]"

definition out_name :: "string \<Rightarrow> nat \<Rightarrow> string" where
  "out_name camera hour = camera @ ''-'' @ two_digits hour @ ''00.mp4''"

definition is_today :: "timestamp \<Rightarrow> int \<Rightarrow> bool" where
  "is_today now d \<longleftrightarrow> now div 86400 = d"

definition current_hour :: "timestamp \<Rightarrow> int \<Rightarrow> nat" where
  "current_hour now d = (if is_today now d then nat ((now mod 86400) div 3600) else 23)"

definition is_current :: "timestamp \<Rightarrow> int \<Rightarrow> nat \<Rightarrow> bool" where
  "is_current now d hour \<longleftrightarrow> is_today now d \<and> hour = current_hour now d"

definition window_end :: "timestamp \<Rightarrow> int \<Rightarrow> nat \<Rightarrow> timestamp" where
  "window_end now d hour = (if is_current now d hour then now else end_dt_full d hour)"

text \<open>
  The frames of one hour, as the loop body of \<open>build_for_camera_day\<close> collects them
  once \<open>hour_window\<close> has returned \<open>start_dt\<close> and \<open>end_dt_full\<close>.
\<close>

definition select_frames :: "world \<Rightarrow> timestamp \<Rightarrow> int \<Rightarrow> string \<Rightarrow> nat \<Rightarrow> exn + frame list" where
  "select_frames w now d camera hour =
     (let start_ts = start_dt d hour;
          end_ts = window_end now d hour
      in if hour = 0
         then
           (let prev_start = 86400 * (d - 1) + 3600 * 23 + 60 * (60 - OVERLAP_MINUTES);
                prev_end = 86400 * d
            in (case (if dir_exists (dirs w (d - 1) camera)
                      then list_jpgs_in_range (d - 1, camera) (dirs w (d - 1) camera) prev_start prev_end
                      else Inr []) of
                  Inl e \<Rightarrow> Inl e
                | Inr prev_frames \<Rightarrow>
                    (case list_jpgs_in_range (d, camera) (dirs w d camera) start_ts end_ts of
                       Inl e \<Rightarrow> Inl e
                     | Inr cur_frames \<Rightarrow> Inr (prev_frames @ cur_frames))))
         else list_jpgs_in_range (d, camera) (dirs w d camera) start_ts end_ts)"

text \<open>
  One iteration of \<open>for hour in range(0, current_hour + 1)\<close> from the line after the
  call of \<open>hour_window\<close>, whose results are \<open>start_dt d hour\<close> and
  \<open>end_dt_full d hour\<close>: the new value of \<open>built\<close> and the new world, or the exception
  that leaves the loop. The loop itself, \<open>hours_loop\<close>, calls \<open>hour_window\<close> first.
\<close>

definition hour_body ::
    "Config \<Rightarrow> (nat \<Rightarrow> path list \<Rightarrow> enc_outcome) \<Rightarrow> timestamp \<Rightarrow> int \<Rightarrow> string \<Rightarrow> nat
       \<Rightarrow> world \<Rightarrow> nat \<Rightarrow> (exn + nat) \<times> world" where
  "hour_body cfg ffmpeg now d camera hour w built =
     (let out_mp4 = (d, camera, out_name camera hour) in
      case select_frames w now d camera hour of
        Inl e \<Rightarrow> (Inl e, w)
      | Inr frames \<Rightarrow>
          if frames = []
          then (Inr built,
                if verbose cfg
                then eprint (LogSkipNoFrames (out_name camera hour) (start_dt d hour)
                               (window_end now d hour)) w
                else w)
          else
            (let (skip, w1) =
                   (if \<not> is_current now d hour
                    then should_skip_past_hour out_mp4 frames (verbose cfg) w
                    else (False,
                          if verbose cfg
                          then eprint (LogBuildCurrent (out_name camera hour) (window_end now d hour)) w
                          else w))
             in if skip then (Inr built, w1)
                else (case build_hour_mp4 ffmpeg out_mp4 frames cfg w1 of
                        (Inr u, w2) \<Rightarrow> (Inr (built + 1), w2)
                      | (Inl e, w2) \<Rightarrow>
                          if is_Exception e
                          then (Inr built, eprint (LogErrBuilding (out_name camera hour) e) w2)
                          else (Inl e, w2))))"

fun hours_loop ::
    "Config \<Rightarrow> (nat \<Rightarrow> path list \<Rightarrow> enc_outcome) \<Rightarrow> timestamp \<Rightarrow> int \<Rightarrow> string \<Rightarrow> nat list
       \<Rightarrow> world \<Rightarrow> nat \<Rightarrow> (exn + nat) \<times> world" where
  "hours_loop cfg ffmpeg now d camera [] w built = (Inr built, w)"
| "hours_loop cfg ffmpeg now d camera (hour # hours) w built =
     (case hour_window d hour of
        Inl e \<Rightarrow> (Inl e, w)
      | Inr win \<Rightarrow>
          (case hour_body cfg ffmpeg now d camera hour w built of
             (Inl e, w') \<Rightarrow> (Inl e, w')
           | (Inr built', w') \<Rightarrow> hours_loop cfg ffmpeg now d camera hours w' built'))"

definition yyyymmdd_to_date :: "day_name \<Rightarrow> exn + int" where
  "yyyymmdd_to_date dn = (case dn of Date name d \<Rightarrow> Inr d | NotADate name \<Rightarrow> Inl ValueError)"

definition day_dir :: "world \<Rightarrow> day_name \<Rightarrow> string \<Rightarrow> dir_state" where
  "day_dir w dn camera =
     (case dn of Date name d \<Rightarrow> dirs w d camera | NotADate name \<Rightarrow> other_dirs w name camera)"

text \<open>
  The directory is looked up before the name is parsed; the previous day is computed
  before the loop, and raises \<open>OverflowError\<close> for the first day of the calendar.
\<close>

definition build_for_camera_day ::
    "Config \<Rightarrow> (nat \<Rightarrow> path list \<Rightarrow> enc_outcome) \<Rightarrow> timestamp \<Rightarrow> day_name \<Rightarrow> string
       \<Rightarrow> world \<Rightarrow> (exn + nat) \<times> world" where
  "build_for_camera_day cfg ffmpeg now dn camera w =
     (if \<not> dir_exists (day_dir w dn camera)
      then (Inr 0, eprint (LogErrMissingCameraDir (day_str dn) camera) w)
      else (case yyyymmdd_to_date dn of
              Inl e \<Rightarrow> (Inl e, w)
            | Inr d \<Rightarrow>
                if d - 1 < MIN_DAY then (Inl OverflowError, w)
                else hours_loop cfg ffmpeg now d camera [0 ..< current_hour now d + 1] w 0))"

subsection \<open>The command line entry point\<close>

text \<open>
  The parsed arguments: \<open>--all\<close>, the flags \<open>--camera1\<close> to \<open>--camera6\<close> by name,
  \<open>--day\<close> and the numeric options. \<open>clock k\<close> is what \<open>datetime.now()\<close> answers when
  the \<open>k\<close>-th camera of the run is started; \<open>which_ffmpeg\<close> is the encoder found in
  \<open>PATH\<close>, if any.
\<close>

record Namespace =
  ns_all :: bool
  ns_flag :: "string \<Rightarrow> bool"
  ns_day :: "day_name option"
  ns_scale_max_width :: int
  ns_crf :: int
  ns_preset :: string
  ns_min_frames :: int
  ns_verbose :: bool

definition selected_cameras :: "Namespace \<Rightarrow> string list" where
  "selected_cameras ns =
     (if ns_all ns then map snd CAMERA_MAP
      else map snd (filter (\<lambda>kv. ns_flag ns (fst kv)) CAMERA_MAP))"

definition list_day_dirs :: "world \<Rightarrow> day_name list" where
  "list_day_dirs w = (if \<not> root_exists w then [] else sort_key day_str (day_dirs w))"

definition pick_latest_day :: "world \<Rightarrow> day_name option" where
  "pick_latest_day w = (let days = list_day_dirs w in if days = [] then None else Some (last days))"

definition require_ffmpeg :: "'f option \<Rightarrow> exn + 'f" where
  "require_ffmpeg which_ffmpeg =
     (case which_ffmpeg of
        None \<Rightarrow> Inl (SystemExit ''ERROR: ffmpeg not found in PATH.'')
      | Some f \<Rightarrow> Inr f)"

fun cameras_loop ::
    "Config \<Rightarrow> (nat \<Rightarrow> path list \<Rightarrow> enc_outcome) \<Rightarrow> (nat \<Rightarrow> timestamp) \<Rightarrow> day_name
       \<Rightarrow> string list \<Rightarrow> nat \<Rightarrow> world \<Rightarrow> nat \<Rightarrow> (exn + nat) \<times> world" where
  "cameras_loop cfg ffmpeg clock dn [] k w total_built = (Inr total_built, w)"
| "cameras_loop cfg ffmpeg clock dn (cam # cams) k w total_built =
     (case build_for_camera_day cfg ffmpeg (clock k) dn cam (eprint (LogCamera cam (day_str dn)) w) of
        (Inl e, w') \<Rightarrow> (Inl e, w')
      | (Inr built, w') \<Rightarrow>
          cameras_loop cfg ffmpeg clock dn cams (k + 1) w' (total_built + built))"

text \<open>\<open>day = cfg.day or pick_latest_day(cfg.archive_root)\<close>.\<close>

definition resolve_day :: "Namespace \<Rightarrow> world \<Rightarrow> day_name option" where
  "resolve_day ns w = (case ns_day ns of Some dn \<Rightarrow> Some dn | None \<Rightarrow> pick_latest_day w)"

definition main ::
    "Namespace \<Rightarrow> (nat \<Rightarrow> path list \<Rightarrow> enc_outcome) option \<Rightarrow> (nat \<Rightarrow> timestamp) \<Rightarrow> world
       \<Rightarrow> (exn + int) \<times> world" where
  "main ns which_ffmpeg clock w =
     (let cams = selected_cameras ns in
      if cams = [] then (Inr 2, eprint LogErrNoCamera (eprint LogHelp w))
      else
        (let cfg = \<lparr>day = ns_day ns, cameras = cams, scale_max_width = ns_scale_max_width ns,
                    crf = ns_crf ns, preset = ns_preset ns, min_frames = ns_min_frames ns,
                    verbose = ns_verbose ns\<rparr>
         in if \<not> root_exists w then (Inr 2, eprint LogErrNoRoot w)
            else
              (case resolve_day ns w of
                 None \<Rightarrow> (Inr 1, eprint LogErrNoDays w)
               | Some dn \<Rightarrow>
                   (case require_ffmpeg which_ffmpeg of
                      Inl e \<Rightarrow> (Inl e, w)
                    | Inr ffmpeg \<Rightarrow>
                        (case cameras_loop cfg ffmpeg clock dn (cameras cfg) 0 w 0 of
                           (Inl e, w') \<Rightarrow> (Inl e, w')
                         | (Inr total_built, w') \<Rightarrow> (Inr 0, eprint (LogDone total_built) w'))))))"

subsection \<open>What the frame selector is to return\<close>

text \<open>
  The selector's contract, entry by entry: a regular file with a recognized JPEG suffix
  whose \<open>stat()\<close> succeeds with a modification time in \<open>[start_ts, end_ts)\<close> is a frame,
  its path paired with that time; every other entry is none.
\<close>

definition candidate :: "int \<times> string \<Rightarrow> timestamp \<Rightarrow> timestamp \<Rightarrow> entry \<Rightarrow> frame option" where
  "candidate dp start_ts end_ts e =
     (if e_is_file e \<and> endswith_any (e_name e) JPEG_EXTS
      then (case e_stat e of
              None \<Rightarrow> None
            | Some mt \<Rightarrow>
                if start_ts \<le> mt \<and> mt < end_ts then Some ((fst dp, snd dp, e_name e), mt)
                else None)
      else None)"

subsection \<open>The world after an encoder run\<close>

text \<open>
  What one run of the encoder on \<open>frames\<close> leaves behind once the work area is removed:
  the invocation is recorded (and printed when verbose); nothing else has changed.
\<close>

definition invoked :: "frame list \<Rightarrow> bool \<Rightarrow> world \<Rightarrow> world" where
  "invoked frames verb w =
     (if verb then eprint (LogFfmpeg (map fst frames)) w else w)
       \<lparr>enc_calls := enc_calls w @ [map fst frames]\<rparr>"

text \<open>
  The world in which an hour that is not skipped starts its build: the forced rebuild of
  the hour in progress is announced when verbose.
\<close>

definition announced :: "Config \<Rightarrow> timestamp \<Rightarrow> int \<Rightarrow> string \<Rightarrow> nat \<Rightarrow> world \<Rightarrow> world" where
  "announced cfg now d camera hour w =
     (if is_current now d hour \<and> verbose cfg
      then eprint (LogBuildCurrent (out_name camera hour) (window_end now d hour)) w
      else w)"

text \<open>
  The hour is not skipped as up to date: it is the hour in progress, or the artifact is
  missing, or the artifact is older than the newest frame.
\<close>

definition must_build :: "world \<Rightarrow> timestamp \<Rightarrow> int \<Rightarrow> string \<Rightarrow> nat \<Rightarrow> frame list \<Rightarrow> bool" where
  "must_build w now d camera hour frames \<longleftrightarrow>
     is_current now d hour \<or>
     (case artifacts w (d, camera, out_name camera hour) of
        None \<Rightarrow> True
      | Some f \<Rightarrow> f_mtime f < Max (snd ` set frames))"


text \<open>The line that announces a camera.\<close>

fun is_LogCamera :: "log_event \<Rightarrow> bool" where
  "is_LogCamera (LogCamera cam name) = True"
| "is_LogCamera _ = False"

section \<open>Properties\<close>

subsection \<open>Frame selector\<close>

lemma scan_loop_map_filter:
  "scan_loop dp s e (map Entry es) out = Inr (out @ List.map_filter (candidate dp s e) es)"
  by (induction es arbitrary: out)
     (auto simp: List.map_filter_simps candidate_def split: option.splits)

lemma scan_loop_broken:
  "scan_loop dp s e (map Entry es @ BrokenEntry name # rest) out = Inl OSError"
  by (induction es arbitrary: out) (auto split: option.splits)

lemma list_jpgs_Listing:
  "list_jpgs_in_range dp (Listing es) s e =
     Inr (sort_key snd (List.map_filter (candidate dp s e) es))"
  by (simp add: list_jpgs_in_range_def scan_loop_map_filter)

lemma list_jpgs_Missing: "list_jpgs_in_range dp Missing s e = Inr []"
  by (simp add: list_jpgs_in_range_def)

lemma list_jpgs_Vanished: "list_jpgs_in_range dp Vanished s e = Inr []"
  by (simp add: list_jpgs_in_range_def)

lemma list_jpgs_Unreadable: "list_jpgs_in_range dp Unreadable s e = Inl OSError"
  by (simp add: list_jpgs_in_range_def)

lemma list_jpgs_Aborted: "list_jpgs_in_range dp (Aborted es name) s e = Inl OSError"
  by (simp add: list_jpgs_in_range_def scan_loop_broken)

lemma endswith_iff: "endswith s suf \<longleftrightarrow> (\<exists>stem. s = stem @ suf)"
proof
  assume "endswith s suf"
  then have "s = take (length s - length suf) s @ suf"
    by (metis append_take_drop_id endswith_def)
  then show "\<exists>stem. s = stem @ suf" ..
next
  assume "\<exists>stem. s = stem @ suf"
  then show "endswith s suf" by (auto simp: endswith_def)
qed

lemma set_map_filter_candidate:
  "set (List.map_filter (candidate dp s e) es) =
     {((fst dp, snd dp, e_name en), mt) | en mt.
        en \<in> set es \<and> e_is_file en \<and> endswith_any (e_name en) JPEG_EXTS \<and>
        e_stat en = Some mt \<and> s \<le> mt \<and> mt < e}"
  by (auto simp: List.map_filter_def candidate_def split: option.splits if_splits) force

lemma map_filter_append:
  "List.map_filter f (xs @ ys) = List.map_filter f xs @ List.map_filter f ys"
  by (simp add: List.map_filter_def)

lemma endswith_any_JPEG_EXTS:
  "endswith_any name JPEG_EXTS \<longleftrightarrow>
     (\<exists>stem. name = stem @ ''.jpg'' \<or> name = stem @ ''.jpeg'' \<or>
             name = stem @ ''.JPG'' \<or> name = stem @ ''.JPEG'')"
  unfolding endswith_any_def JPEG_EXTS_def by (simp add: endswith_iff) blast

text \<open>
  C5, as the spec has it (for every directory the selector returns a list, and a failure
  on a single entry only skips that entry), fails: for a directory that exists and
  cannot be read, and for a directory in which the \<open>is_file()\<close> of one entry raises,
  the selector returns nothing: the \<open>OSError\<close> leaves \<open>list_jpgs_in_range\<close>, also when
  every other entry is a frame of the window.
\<close>

theorem unscannable_directory_is_raised:
  "list_jpgs_in_range (1, ''driveway'') Unreadable 0 100 = Inl OSError \<and>
   list_jpgs_in_range (1, ''driveway'')
     (Aborted [\<lparr>e_name = ''a.jpg'', e_is_file = True, e_stat = Some 10\<rparr>] ''link.jpg'')
     0 100 = Inl OSError"
  by (simp add: list_jpgs_in_range_def endswith_any_def endswith_def JPEG_EXTS_def)

text \<open>
  C5, amended. For every window \<open>[s, e)\<close>: a directory that does not exist, or that
  disappears before it is scanned, yields the empty list; a directory whose scan
  completes yields exactly the entries that are regular files with a recognized JPEG
  suffix and a modification time \<open>mt\<close> with \<open>s \<le> mt < e\<close>, each once, as (path, mtime)
  pairs in non-decreasing order of mtime (a stable sort of the enumeration order); an
  entry whose \<open>stat()\<close> fails is skipped, and the result is the one the directory without
  that entry has. A directory that exists and cannot be scanned, and a scan in which an
  \<open>is_file()\<close> raises, yield no list: the selector raises the \<open>OSError\<close>.
\<close>

theorem list_jpgs_in_range_contract:
  "list_jpgs_in_range dp Missing s e = Inr [] \<and>
   list_jpgs_in_range dp Vanished s e = Inr [] \<and>
   list_jpgs_in_range dp Unreadable s e = Inl OSError \<and>
   list_jpgs_in_range dp (Aborted es name) s e = Inl OSError \<and>
   (\<exists>fs. list_jpgs_in_range dp (Listing es) s e = Inr fs \<and>
      sorted (map snd fs) \<and>
      fs = sort_key snd (List.map_filter (candidate dp s e) es) \<and>
      mset fs = mset (List.map_filter (candidate dp s e) es) \<and>
      set fs = {((fst dp, snd dp, e_name en), mt) | en mt.
                  en \<in> set es \<and> e_is_file en \<and> endswith_any (e_name en) JPEG_EXTS \<and>
                  e_stat en = Some mt \<and> s \<le> mt \<and> mt < e}) \<and>
   list_jpgs_in_range dp (Listing (es1 @ en\<lparr>e_stat := None\<rparr> # es2)) s e =
     list_jpgs_in_range dp (Listing (es1 @ es2)) s e"
proof (intro conjI)
  show "list_jpgs_in_range dp Missing s e = Inr []"
    by (rule list_jpgs_Missing)
next
  show "list_jpgs_in_range dp Vanished s e = Inr []"
    by (rule list_jpgs_Vanished)
next
  show "list_jpgs_in_range dp Unreadable s e = Inl OSError"
    by (rule list_jpgs_Unreadable)
next
  show "list_jpgs_in_range dp (Aborted es name) s e = Inl OSError"
    by (rule list_jpgs_Aborted)
next
  let ?fs = "sort_key snd (List.map_filter (candidate dp s e) es)"
  have "sorted (map snd ?fs)" by simp
  moreover have "mset ?fs = mset (List.map_filter (candidate dp s e) es)" by simp
  moreover have "set ?fs = {((fst dp, snd dp, e_name en), mt) | en mt.
                  en \<in> set es \<and> e_is_file en \<and> endswith_any (e_name en) JPEG_EXTS \<and>
                  e_stat en = Some mt \<and> s \<le> mt \<and> mt < e}"
    by (simp add: set_map_filter_candidate)
  ultimately show "\<exists>fs. list_jpgs_in_range dp (Listing es) s e = Inr fs \<and>
      sorted (map snd fs) \<and>
      fs = sort_key snd (List.map_filter (candidate dp s e) es) \<and>
      mset fs = mset (List.map_filter (candidate dp s e) es) \<and>
      set fs = {((fst dp, snd dp, e_name en), mt) | en mt.
                  en \<in> set es \<and> e_is_file en \<and> endswith_any (e_name en) JPEG_EXTS \<and>
                  e_stat en = Some mt \<and> s \<le> mt \<and> mt < e}"
    using list_jpgs_Listing by blast
next
  have "candidate dp s e (en\<lparr>e_stat := None\<rparr>) = None"
    by (simp add: candidate_def)
  then show "list_jpgs_in_range dp (Listing (es1 @ en\<lparr>e_stat := None\<rparr> # es2)) s e =
     list_jpgs_in_range dp (Listing (es1 @ es2)) s e"
    by (simp add: list_jpgs_Listing map_filter_append List.map_filter_simps)
qed

text \<open>
  C10, as the spec has it (the suffix is matched in any letter case), fails: regular
  files named \<open>snap.Jpg\<close> and \<open>snap.JPeg\<close> with modification times inside the window are
  not selected.
\<close>

theorem mixed_case_suffix_not_selected:
  "list_jpgs_in_range (0, ''driveway'')
     (Listing [\<lparr>e_name = ''snap.Jpg'', e_is_file = True, e_stat = Some 10\<rparr>,
               \<lparr>e_name = ''snap.JPeg'', e_is_file = True, e_stat = Some 20\<rparr>]) 0 100 = Inr []"
  by (simp add: list_jpgs_in_range_def endswith_any_def endswith_def JPEG_EXTS_def)

text \<open>
  C10, amended. A regular file of a listed directory whose \<open>stat()\<close> gives a modification
  time inside the window is selected exactly when its name ends in one of the four
  suffixes \<open>.jpg\<close>, \<open>.jpeg\<close>, \<open>.JPG\<close>, \<open>.JPEG\<close>, letter for letter: the suffix is
  all lower case or all upper case.
\<close>

theorem suffix_match_is_case_sensitive:
  assumes "en \<in> set es" and "e_is_file en"
    and "e_stat en = Some mt" and "s \<le> mt" and "mt < e"
  shows "(\<exists>fs. list_jpgs_in_range dp (Listing es) s e = Inr fs \<and>
             ((fst dp, snd dp, e_name en), mt) \<in> set fs) \<longleftrightarrow>
         (\<exists>stem. e_name en = stem @ ''.jpg'' \<or> e_name en = stem @ ''.jpeg'' \<or>
                 e_name en = stem @ ''.JPG'' \<or> e_name en = stem @ ''.JPEG'')"
proof -
  have "((fst dp, snd dp, e_name en), mt) \<in> set (List.map_filter (candidate dp s e) es) \<longleftrightarrow>
        endswith_any (e_name en) JPEG_EXTS"
    using assms unfolding set_map_filter_candidate by auto
  then show ?thesis
    by (simp add: list_jpgs_Listing endswith_any_JPEG_EXTS)
qed

theorem suffix_match_is_case_sensitive_witness:
  "\<exists>fs. list_jpgs_in_range (0, ''driveway'')
           (Listing [\<lparr>e_name = ''snap.JPEG'', e_is_file = True, e_stat = Some 10\<rparr>]) 0 100 = Inr fs \<and>
         ((0, ''driveway'', ''snap.JPEG''), 10) \<in> set fs"
proof -
  have "\<exists>stem. ''snap.JPEG'' = stem @ ''.jpg'' \<or> ''snap.JPEG'' = stem @ ''.jpeg'' \<or>
               ''snap.JPEG'' = stem @ ''.JPG'' \<or> ''snap.JPEG'' = stem @ ''.JPEG''"
    by (rule exI [of _ "''snap''"]) simp
  then show ?thesis
    using suffix_match_is_case_sensitive
      [of "\<lparr>e_name = ''snap.JPEG'', e_is_file = True, e_stat = Some 10\<rparr>"
          "[\<lparr>e_name = ''snap.JPEG'', e_is_file = True, e_stat = Some 10\<rparr>]" 10 0 100
          "(0, ''driveway'')"]
    by simp
qed

subsection \<open>Hour windows\<close>

lemma hour_window_eq:
  "start_dt d hour = 86400 * d + 3600 * int hour"
  "end_dt_full d hour = 86400 * d + 3600 * int hour + 3900"
  by (simp_all add: start_dt_def end_dt_full_def OVERLAP_MINUTES_def)

lemma select_frames_later_hour:
  "hour \<noteq> 0 \<Longrightarrow> select_frames w now d camera hour =
     list_jpgs_in_range (d, camera) (dirs w d camera)
       (86400 * d + 3600 * int hour) (window_end now d hour)"
  by (simp add: select_frames_def hour_window_eq)

lemma select_frames_midnight:
  "select_frames w now d camera 0 =
     (case (if dir_exists (dirs w (d - 1) camera)
            then list_jpgs_in_range (d - 1, camera) (dirs w (d - 1) camera) (86400 * d - 300) (86400 * d)
            else Inr []) of
        Inl e \<Rightarrow> Inl e
      | Inr prev_frames \<Rightarrow>
          (case list_jpgs_in_range (d, camera) (dirs w d camera) (86400 * d) (window_end now d 0) of
             Inl e \<Rightarrow> Inl e
           | Inr cur_frames \<Rightarrow> Inr (prev_frames @ cur_frames)))"
  by (simp add: select_frames_def hour_window_eq OVERLAP_MINUTES_def)

lemma candidate_in_window:
  "x \<in> set (List.map_filter (candidate dp s e) es) \<Longrightarrow> s \<le> snd x \<and> snd x < e"
  unfolding set_map_filter_candidate by auto

text \<open>
  C4. For an hour \<open>HH \<ge> 1\<close> that is not the hour in progress, the frames selected from
  a listed camera-day directory are exactly its regular JPEG files whose modification
  time lies in \<open>[day HH:00:00, day (HH+1):00:00 + 5 minutes)\<close>, in order of time. The
  witness has frames at 07:00:00, 07:59:59, 08:04:59 and 08:05:00 for hour 7: the first
  three are selected and the last is not.
\<close>

theorem closed_hour_window:
  assumes "1 \<le> hour" and "\<not> is_current now d hour" and "dirs w d camera = Listing es"
  shows "\<exists>fs. select_frames w now d camera hour = Inr fs \<and>
           fs = sort_key snd (List.map_filter
                  (candidate (d, camera) (86400 * d + 3600 * int hour)
                     (86400 * d + 3600 * (int hour + 1) + 300)) es) \<and>
           sorted (map snd fs) \<and>
           set fs = {((d, camera, e_name en), mt) | en mt.
                       en \<in> set es \<and> e_is_file en \<and> endswith_any (e_name en) JPEG_EXTS \<and>
                       e_stat en = Some mt \<and>
                       86400 * d + 3600 * int hour \<le> mt \<and>
                       mt < 86400 * d + 3600 * (int hour + 1) + 300}"
proof -
  have we: "window_end now d hour = 86400 * d + 3600 * (int hour + 1) + 300"
    using assms(2) by (simp add: window_end_def hour_window_eq)
  have "select_frames w now d camera hour =
          Inr (sort_key snd (List.map_filter
                  (candidate (d, camera) (86400 * d + 3600 * int hour)
                     (86400 * d + 3600 * (int hour + 1) + 300)) es))"
    using assms(1,3) by (simp add: select_frames_later_hour we list_jpgs_Listing)
  then show ?thesis
    by (simp add: set_map_filter_candidate)
qed

theorem closed_hour_window_witness:
  "select_frames
     \<lparr>root_exists = True, day_dirs = [Date ''19700102'' 1],
      dirs = (\<lambda>d c. Listing
        [\<lparr>e_name = ''d.jpg'', e_is_file = True, e_stat = Some (86400 + 3600 * 8 + 300)\<rparr>,
         \<lparr>e_name = ''c.jpg'', e_is_file = True, e_stat = Some (86400 + 3600 * 8 + 299)\<rparr>,
         \<lparr>e_name = ''b.jpg'', e_is_file = True, e_stat = Some (86400 + 3600 * 7 + 3599)\<rparr>,
         \<lparr>e_name = ''a.jpg'', e_is_file = True, e_stat = Some (86400 + 3600 * 7)\<rparr>]),
      other_dirs = (\<lambda>name c. Missing),
      artifacts = Map.empty, tmp_dirs = [], enc_calls = [], stderr = []\<rparr>
     (86400 * 5) 1 ''driveway'' 7 =
   Inr [((1, ''driveway'', ''a.jpg''), 86400 + 3600 * 7),
        ((1, ''driveway'', ''b.jpg''), 86400 + 3600 * 7 + 3599),
        ((1, ''driveway'', ''c.jpg''), 86400 + 3600 * 8 + 299)]"
  (is "select_frames ?w ?now ?d ?cam ?h = ?r")
proof -
  have h1: "1 \<le> (7::nat)" by simp
  have h2: "\<not> is_current ?now ?d 7"
    by (simp add: is_current_def is_today_def)
  have h3: "dirs ?w ?d ?cam = Listing
        [\<lparr>e_name = ''d.jpg'', e_is_file = True, e_stat = Some (86400 + 3600 * 8 + 300)\<rparr>,
         \<lparr>e_name = ''c.jpg'', e_is_file = True, e_stat = Some (86400 + 3600 * 8 + 299)\<rparr>,
         \<lparr>e_name = ''b.jpg'', e_is_file = True, e_stat = Some (86400 + 3600 * 7 + 3599)\<rparr>,
         \<lparr>e_name = ''a.jpg'', e_is_file = True, e_stat = Some (86400 + 3600 * 7)\<rparr>]"
    by simp
  from closed_hour_window [OF h1 h2 h3]
  obtain fs where "select_frames ?w ?now ?d ?cam 7 = Inr fs"
    and "fs = sort_key snd (List.map_filter
                  (candidate (?d, ?cam) (86400 * ?d + 3600 * int 7)
                     (86400 * ?d + 3600 * (int 7 + 1) + 300))
        [\<lparr>e_name = ''d.jpg'', e_is_file = True, e_stat = Some (86400 + 3600 * 8 + 300)\<rparr>,
         \<lparr>e_name = ''c.jpg'', e_is_file = True, e_stat = Some (86400 + 3600 * 8 + 299)\<rparr>,
         \<lparr>e_name = ''b.jpg'', e_is_file = True, e_stat = Some (86400 + 3600 * 7 + 3599)\<rparr>,
         \<lparr>e_name = ''a.jpg'', e_is_file = True, e_stat = Some (86400 + 3600 * 7)\<rparr>])"
    by (elim exE conjE) (rule that)
  then show ?thesis
    by (simp add: List.map_filter_simps candidate_def endswith_any_def endswith_def JPEG_EXTS_def)
qed

lemma sorted_across_midnight:
  assumes "sorted (map snd a)" and "sorted (map snd b)"
    and "\<And>x. x \<in> set a \<Longrightarrow> snd x < (m::int)" and "\<And>y. y \<in> set b \<Longrightarrow> m \<le> snd y"
  shows "sorted (map snd (a @ b))"
  using assms by (fastforce simp: sorted_append)

text \<open>
  C3. For hour 0 the frame list is the frames of the previous day's camera directory
  with modification time in \<open>[previous day 23:55:00, day 00:00:00)\<close> followed by the
  frames of the day's own directory in \<open>[00:00:00, 01:05:00)\<close>, or in \<open>[00:00:00, now)\<close>
  when hour 0 is the hour in progress; the whole list is in order of time. When the
  previous day's directory does not exist the first part is empty and nothing is raised.
\<close>

theorem midnight_window:
  assumes cur: "dirs w d camera = Listing ces"
    and prev: "dirs w (d - 1) camera = Missing \<and> pes = [] \<or> dirs w (d - 1) camera = Listing pes"
  shows "\<exists>a b. select_frames w now d camera 0 = Inr (a @ b) \<and>
           a = sort_key snd (List.map_filter
                 (candidate (d - 1, camera) (86400 * (d - 1) + 3600 * 23 + 60 * 55) (86400 * d)) pes) \<and>
           b = sort_key snd (List.map_filter
                 (candidate (d, camera) (86400 * d)
                    (if is_current now d 0 then now else 86400 * d + 3600 + 60 * 5)) ces) \<and>
           sorted (map snd (a @ b)) \<and>
           set a = {((d - 1, camera, e_name en), mt) | en mt.
                      en \<in> set pes \<and> e_is_file en \<and> endswith_any (e_name en) JPEG_EXTS \<and>
                      e_stat en = Some mt \<and>
                      86400 * (d - 1) + 3600 * 23 + 60 * 55 \<le> mt \<and> mt < 86400 * d} \<and>
           set b = {((d, camera, e_name en), mt) | en mt.
                      en \<in> set ces \<and> e_is_file en \<and> endswith_any (e_name en) JPEG_EXTS \<and>
                      e_stat en = Some mt \<and>
                      86400 * d \<le> mt \<and>
                      mt < (if is_current now d 0 then now else 86400 * d + 3600 + 60 * 5)}"
proof -
  let ?a = "sort_key snd (List.map_filter
                 (candidate (d - 1, camera) (86400 * (d - 1) + 3600 * 23 + 60 * 55) (86400 * d)) pes)"
  let ?e = "if is_current now d 0 then now else 86400 * d + 3600 + 60 * 5"
  let ?b = "sort_key snd (List.map_filter (candidate (d, camera) (86400 * d) ?e) ces)"
  have s: "86400 * (d - 1) + 3600 * 23 + 60 * 55 = 86400 * d - 300" by simp
  have we: "window_end now d 0 = ?e"
    by (simp add: window_end_def hour_window_eq)
  have pa: "(if dir_exists (dirs w (d - 1) camera)
            then list_jpgs_in_range (d - 1, camera) (dirs w (d - 1) camera) (86400 * d - 300) (86400 * d)
            else Inr []) = Inr ?a"
    using prev by (auto simp: list_jpgs_Listing List.map_filter_simps s)
  have sel: "select_frames w now d camera 0 = Inr (?a @ ?b)"
    unfolding select_frames_midnight pa we cur list_jpgs_Listing by simp
  have "sorted (map snd (?a @ ?b))"
  proof (rule sorted_across_midnight [where m = "86400 * d"])
    fix x assume "x \<in> set ?a"
    then show "snd x < 86400 * d" using candidate_in_window by fastforce
  next
    fix y assume "y \<in> set ?b"
    then show "86400 * d \<le> snd y" using candidate_in_window by fastforce
  qed simp_all
  with sel show ?thesis
    by (intro exI [of _ ?a] exI [of _ ?b]) (simp add: set_map_filter_candidate)
qed

theorem midnight_window_witness:
  "select_frames
     \<lparr>root_exists = True, day_dirs = [Date ''19700101'' 0, Date ''19700102'' 1],
      dirs = (\<lambda>d c. if d = 1 then Listing
                [\<lparr>e_name = ''b.jpg'', e_is_file = True, e_stat = Some (86400 + 1)\<rparr>]
              else Listing
                [\<lparr>e_name = ''a.jpg'', e_is_file = True, e_stat = Some (3600 * 23 + 60 * 56)\<rparr>]),
      other_dirs = (\<lambda>name c. Missing),
      artifacts = Map.empty, tmp_dirs = [], enc_calls = [], stderr = []\<rparr>
     (86400 * 5) 1 ''driveway'' 0 =
   Inr [((0, ''driveway'', ''a.jpg''), 3600 * 23 + 60 * 56),
        ((1, ''driveway'', ''b.jpg''), 86400 + 1)]"
  (is "select_frames ?w ?now ?d ?cam 0 = ?r")
proof -
  let ?ces = "[\<lparr>e_name = ''b.jpg'', e_is_file = True, e_stat = Some (86400 + 1)\<rparr>]"
  let ?pes = "[\<lparr>e_name = ''a.jpg'', e_is_file = True, e_stat = Some (3600 * 23 + 60 * 56)\<rparr>]"
  have nc: "\<not> is_current ?now ?d 0"
    by (simp add: is_current_def is_today_def)
  have h1: "dirs ?w ?d ?cam = Listing ?ces" by simp
  have h2: "dirs ?w (?d - 1) ?cam = Missing \<and> ?pes = [] \<or> dirs ?w (?d - 1) ?cam = Listing ?pes"
    by simp
  from midnight_window [OF h1 h2, of ?now]
  obtain a b where "select_frames ?w ?now ?d ?cam 0 = Inr (a @ b)"
    and "a = sort_key snd (List.map_filter
                 (candidate (?d - 1, ?cam) (86400 * (?d - 1) + 3600 * 23 + 60 * 55) (86400 * ?d)) ?pes)"
    and "b = sort_key snd (List.map_filter
                 (candidate (?d, ?cam) (86400 * ?d)
                    (if is_current ?now ?d 0 then ?now else 86400 * ?d + 3600 + 60 * 5)) ?ces)"
    by (elim exE conjE) (rule that)
  then show ?thesis
    by (simp add: nc List.map_filter_simps candidate_def endswith_any_def endswith_def JPEG_EXTS_def)
qed

subsection \<open>Encoder invocation\<close>

lemma build_hour_mp4_few:
  "int (length frames) < min_frames cfg \<Longrightarrow>
   build_hour_mp4 ffmpeg dest frames cfg w =
     (Inr (), eprint (LogSkipFew (snd (snd dest)) (length frames) (min_frames cfg)) w)"
  by (simp add: build_hour_mp4_def)

lemma build_hour_mp4_run:
  "\<not> int (length frames) < min_frames cfg \<Longrightarrow>
   build_hour_mp4 ffmpeg dest frames cfg w =
     (case ffmpeg (length (enc_calls w)) (map fst frames) of
        Interrupted out \<Rightarrow> (Inl KeyboardInterrupt, invoked frames (verbose cfg) w)
      | Exited rc out err \<Rightarrow>
          if rc \<noteq> 0 then (Inl (RuntimeError rc err), invoked frames (verbose cfg) w)
          else (case out of
                  None \<Rightarrow> (Inl FileNotFoundError, invoked frames (verbose cfg) w)
                | Some f \<Rightarrow>
                    (Inr (), eprint (LogOK dest (length frames))
                       (invoked frames (verbose cfg) w
                          \<lparr>artifacts := (artifacts w)(dest \<mapsto> f)\<rparr>))))"
  by (simp add: build_hour_mp4_def run_ffmpeg_concat_def copy2_def write_concat_list_def
      tmp_put_def tmp_get_def eprint_def invoked_def Let_def
      split: enc_outcome.splits option.splits)


lemma build_hour_mp4_cases:
  obtains (few) "int (length frames) < min_frames cfg"
      "build_hour_mp4 ffmpeg dest frames cfg w =
         (Inr (), eprint (LogSkipFew (snd (snd dest)) (length frames) (min_frames cfg)) w)"
  | (failed) e where "\<not> int (length frames) < min_frames cfg"
      "\<forall>f err. ffmpeg (length (enc_calls w)) (map fst frames) \<noteq> Exited 0 (Some f) err"
      "build_hour_mp4 ffmpeg dest frames cfg w = (Inl e, invoked frames (verbose cfg) w)"
      "is_Exception e \<or> (\<exists>out. ffmpeg (length (enc_calls w)) (map fst frames) = Interrupted out)"
  | (built) f err where "\<not> int (length frames) < min_frames cfg"
      "ffmpeg (length (enc_calls w)) (map fst frames) = Exited 0 (Some f) err"
      "build_hour_mp4 ffmpeg dest frames cfg w =
         (Inr (), eprint (LogOK dest (length frames))
                    (invoked frames (verbose cfg) w\<lparr>artifacts := (artifacts w)(dest \<mapsto> f)\<rparr>))"
proof (cases "int (length frames) < min_frames cfg")
  case True
  then show ?thesis using few build_hour_mp4_few by blast
next
  case False
  note run = build_hour_mp4_run [OF False, of ffmpeg dest w]
  show ?thesis
  proof (cases "ffmpeg (length (enc_calls w)) (map fst frames)")
    case (Interrupted out)
    then show ?thesis using failed [of KeyboardInterrupt] False run by simp
  next
    case (Exited rc out err)
    show ?thesis
    proof (cases "rc = 0")
      case nz: False
      then show ?thesis using failed [of "RuntimeError rc err"] False run Exited by simp
    next
      case z: True
      show ?thesis
      proof (cases out)
        case None
        then show ?thesis using failed [of FileNotFoundError] False run Exited z by simp
      next
        case (Some f)
        then show ?thesis using built [of f err] False run Exited z by simp
      qed
    qed
  qed
qed

lemma invoked_simps [simp]:
  "tmp_dirs (invoked frames verb w) = tmp_dirs w"
  "artifacts (invoked frames verb w) = artifacts w"
  "dirs (invoked frames verb w) = dirs w"
  "enc_calls (invoked frames verb w) = enc_calls w @ [map fst frames]"
  by (simp_all add: invoked_def eprint_def)

lemma eprint_simps [simp]:
  "tmp_dirs (eprint ev w) = tmp_dirs w"
  "artifacts (eprint ev w) = artifacts w"
  "dirs (eprint ev w) = dirs w"
  "enc_calls (eprint ev w) = enc_calls w"
  "stderr (eprint ev w) = stderr w @ [ev]"
  by (simp_all add: eprint_def)

text \<open>
  C6. In an hour build the temporary work area is gone on every exit path, and the final
  path changes only by the copy into place, which happens only when the encoder has
  exited with status 0 and left an output file: then the artifact is that file. When the
  encoder exits with another status or the run is interrupted, every final path is as
  it was before the build.
\<close>

theorem publish_only_after_success:
  assumes "build_hour_mp4 ffmpeg dest frames cfg w = (r, w')"
  shows "tmp_dirs w' = tmp_dirs w \<and>
         (artifacts w' = artifacts w \<or>
          (\<exists>f err. ffmpeg (length (enc_calls w)) (map fst frames) = Exited 0 (Some f) err \<and>
                   r = Inr () \<and> artifacts w' = (artifacts w)(dest \<mapsto> f))) \<and>
         ((case ffmpeg (length (enc_calls w)) (map fst frames) of
             Exited rc out err \<Rightarrow> rc \<noteq> 0
           | Interrupted out \<Rightarrow> True) \<longrightarrow> artifacts w' = artifacts w)"
  using assms
  by - (rule build_hour_mp4_cases
          [where frames = frames and cfg = cfg and ffmpeg = ffmpeg and w = w and dest = dest],
        auto)

theorem publish_only_after_success_witness:
  "tmp_dirs (snd (build_hour_mp4 (\<lambda>n m. Exited 1 (Some \<lparr>f_mtime = 50, f_data = [1, 2]\<rparr>) ''boom'')
       (1, ''driveway'', ''driveway-0700.mp4'') [((1, ''driveway'', ''a.jpg''), 30)]
       \<lparr>day = None, cameras = [''driveway''], scale_max_width = 1920, crf = 23,
          preset = ''veryfast'', min_frames = 1, verbose = False\<rparr>
       \<lparr>root_exists = True, day_dirs = [Date ''19700102'' 1], dirs = (\<lambda>d c. Missing),
          other_dirs = (\<lambda>name c. Missing),
          artifacts = [(1, ''driveway'', ''driveway-0700.mp4'') \<mapsto> \<lparr>f_mtime = 20, f_data = [7]\<rparr>],
          tmp_dirs = [], enc_calls = [], stderr = []\<rparr>)) = [] \<and>
   artifacts (snd (build_hour_mp4 (\<lambda>n m. Exited 1 (Some \<lparr>f_mtime = 50, f_data = [1, 2]\<rparr>) ''boom'')
       (1, ''driveway'', ''driveway-0700.mp4'') [((1, ''driveway'', ''a.jpg''), 30)]
       \<lparr>day = None, cameras = [''driveway''], scale_max_width = 1920, crf = 23,
          preset = ''veryfast'', min_frames = 1, verbose = False\<rparr>
       \<lparr>root_exists = True, day_dirs = [Date ''19700102'' 1], dirs = (\<lambda>d c. Missing),
          other_dirs = (\<lambda>name c. Missing),
          artifacts = [(1, ''driveway'', ''driveway-0700.mp4'') \<mapsto> \<lparr>f_mtime = 20, f_data = [7]\<rparr>],
          tmp_dirs = [], enc_calls = [], stderr = []\<rparr>)) =
     [(1, ''driveway'', ''driveway-0700.mp4'') \<mapsto> \<lparr>f_mtime = 20, f_data = [7]\<rparr>]"
  (is "tmp_dirs (snd (build_hour_mp4 ?ff ?dest ?frames ?cfg ?w)) = [] \<and> _")
  using publish_only_after_success
    [of ?ff ?dest ?frames ?cfg ?w "fst (build_hour_mp4 ?ff ?dest ?frames ?cfg ?w)"
        "snd (build_hour_mp4 ?ff ?dest ?frames ?cfg ?w)"]
  by simp

subsection \<open>Rebuild decision\<close>

lemma list_jpgs_Inr:
  assumes "list_jpgs_in_range dp dir s e = Inr fs"
  shows "sorted (map snd fs)" and "x \<in> set fs \<Longrightarrow> s \<le> snd x \<and> snd x < e"
proof -
  have "fs = [] \<or> (\<exists>es. fs = sort_key snd (List.map_filter (candidate dp s e) es))"
    using assms
    by (cases dir)
       (auto simp: list_jpgs_Missing list_jpgs_Vanished list_jpgs_Unreadable list_jpgs_Listing
          list_jpgs_Aborted)
  then show "sorted (map snd fs)" and "x \<in> set fs \<Longrightarrow> s \<le> snd x \<and> snd x < e"
    using candidate_in_window by fastforce+
qed

lemma select_frames_sorted:
  assumes "select_frames w now d camera hour = Inr frames"
  shows "sorted (map snd frames)"
proof (cases "hour = 0")
  case False
  then show ?thesis
    using assms list_jpgs_Inr(1) by (simp add: select_frames_later_hour)
next
  case True
  from assms obtain a b where ab: "frames = a @ b"
    and a: "a = [] \<or> list_jpgs_in_range (d - 1, camera) (dirs w (d - 1) camera) (86400 * d - 300) (86400 * d) = Inr a"
    and b: "list_jpgs_in_range (d, camera) (dirs w d camera) (86400 * d) (window_end now d 0) = Inr b"
    unfolding True select_frames_midnight
    by (auto split: sum.splits if_splits)
  have "sorted (map snd (a @ b))"
  proof (rule sorted_across_midnight [where m = "86400 * d"])
    show "sorted (map snd a)" using a list_jpgs_Inr(1) by fastforce
    show "sorted (map snd b)" using b list_jpgs_Inr(1) by fastforce
    show "\<And>x. x \<in> set a \<Longrightarrow> snd x < 86400 * d" using a list_jpgs_Inr(2) by fastforce
    show "\<And>y. y \<in> set b \<Longrightarrow> 86400 * d \<le> snd y" using b list_jpgs_Inr(2) by fastforce
  qed
  then show ?thesis by (simp add: ab)
qed

lemma sorted_last_Max:
  fixes xs :: "int list"
  assumes "sorted xs" and "xs \<noteq> []"
  shows "last xs = Max (set xs)"
proof -
  have "sorted (butlast xs @ [last xs])" using assms by simp
  then have "\<forall>y \<in> set (butlast xs). y \<le> last xs"
    by (simp add: sorted_append)
  moreover have "set xs = insert (last xs) (set (butlast xs))"
    using assms(2) by (metis append_butlast_last_id list.set(2) rotate1.simps(2) set_rotate1)
  ultimately have "\<forall>y \<in> set xs. y \<le> last xs" by auto
  then show ?thesis
    using assms(2) by (intro Max_eqI [symmetric]) auto
qed

lemma newest_mtime_Max:
  assumes "sorted (map snd frames)" and "frames \<noteq> []"
  shows "newest_mtime frames = Some (Max (snd ` set frames))"
proof -
  have "snd (last frames) = last (map snd frames)"
    using assms(2) by (simp add: last_map)
  also have "\<dots> = Max (set (map snd frames))"
    using assms by (intro sorted_last_Max) auto
  finally show ?thesis using assms(2) by (simp add: newest_mtime_def)
qed

lemma hour_body_no_frames:
  "select_frames w now d camera hour = Inr [] \<Longrightarrow>
   hour_body cfg ffmpeg now d camera hour w built =
     (Inr built,
      if verbose cfg
      then eprint (LogSkipNoFrames (out_name camera hour) (start_dt d hour)
                     (window_end now d hour)) w
      else w)"
  by (simp add: hour_body_def)

lemma hour_body_raise:
  "select_frames w now d camera hour = Inl e \<Longrightarrow>
   hour_body cfg ffmpeg now d camera hour w built = (Inl e, w)"
  by (simp add: hour_body_def)

lemma hour_body_up_to_date:
  assumes "select_frames w now d camera hour = Inr frames" and "frames \<noteq> []"
    and "\<not> is_current now d hour"
    and "artifacts w (d, camera, out_name camera hour) = Some f"
    and "newest_mtime frames = Some n" and "n \<le> f_mtime f"
  shows "hour_body cfg ffmpeg now d camera hour w built =
     (Inr built,
      if verbose cfg then eprint (LogSkipUpToDate (out_name camera hour) (f_mtime f) n) w else w)"
  using assms by (simp add: hour_body_def should_skip_past_hour_def)

lemma announced_simps [simp]:
  "tmp_dirs (announced cfg now d camera hour w) = tmp_dirs w"
  "artifacts (announced cfg now d camera hour w) = artifacts w"
  "dirs (announced cfg now d camera hour w) = dirs w"
  "enc_calls (announced cfg now d camera hour w) = enc_calls w"
  by (simp_all add: announced_def)

lemma hour_body_build:
  assumes "select_frames w now d camera hour = Inr frames" and "frames \<noteq> []"
    and "is_current now d hour \<or> artifacts w (d, camera, out_name camera hour) = None \<or>
         (\<exists>f n. artifacts w (d, camera, out_name camera hour) = Some f \<and>
                newest_mtime frames = Some n \<and> f_mtime f < n)"
  shows "hour_body cfg ffmpeg now d camera hour w built =
     (case build_hour_mp4 ffmpeg (d, camera, out_name camera hour) frames cfg
             (announced cfg now d camera hour w) of
        (Inr u, w2) \<Rightarrow> (Inr (built + 1), w2)
      | (Inl e, w2) \<Rightarrow>
          if is_Exception e
          then (Inr built, eprint (LogErrBuilding (out_name camera hour) e) w2)
          else (Inl e, w2))"
proof (cases "is_current now d hour")
  case True
  then show ?thesis
    using assms(1,2) by (simp add: hour_body_def announced_def)
next
  case False
  then have "should_skip_past_hour (d, camera, out_name camera hour) frames (verbose cfg) w =
               (False, w)"
    using assms(3) by (auto simp: should_skip_past_hour_def)
  then show ?thesis
    using assms(1,2) False by (simp add: hour_body_def announced_def)
qed

text \<open>
  C1. For an hour that is not the hour in progress, with a non-empty frame list: when the
  artifact exists and its modification time is at least that of the newest selected
  frame, the hour is skipped. The encoder is not invoked, no artifact is rewritten, no
  work area is left, and \<open>built\<close> is as it was.
\<close>

theorem skip_up_to_date_past_hour:
  assumes "\<not> is_current now d hour"
    and "select_frames w now d camera hour = Inr frames" and "frames \<noteq> []"
    and "artifacts w (d, camera, out_name camera hour) = Some f"
    and "Max (snd ` set frames) \<le> f_mtime f"
  shows "\<exists>w'. hour_body cfg ffmpeg now d camera hour w built = (Inr built, w') \<and>
           enc_calls w' = enc_calls w \<and> artifacts w' = artifacts w \<and>
           tmp_dirs w' = tmp_dirs w \<and> dirs w' = dirs w"
proof -
  have "newest_mtime frames = Some (Max (snd ` set frames))"
    using assms(2,3) by (intro newest_mtime_Max select_frames_sorted)
  from hour_body_up_to_date [OF assms(2,3,1,4) this assms(5)]
  show ?thesis by simp
qed

theorem skip_up_to_date_past_hour_witness:
  "\<exists>w'. hour_body
      \<lparr>day = None, cameras = [''driveway''], scale_max_width = 1920, crf = 23,
         preset = ''veryfast'', min_frames = 1, verbose = False\<rparr>
      (\<lambda>n m. Exited 0 (Some \<lparr>f_mtime = 500000, f_data = [1]\<rparr>) [])
      (86400 * 5) 1 ''driveway'' 7
      \<lparr>root_exists = True, day_dirs = [Date ''19700102'' 1],
         dirs = (\<lambda>d c. Listing
           [\<lparr>e_name = ''a.jpg'', e_is_file = True, e_stat = Some (86400 + 3600 * 7 + 10)\<rparr>]),
         other_dirs = (\<lambda>name c. Missing),
         artifacts = [(1, ''driveway'', ''driveway-0700.mp4'') \<mapsto>
                        \<lparr>f_mtime = 86400 + 3600 * 8 + 400, f_data = [7]\<rparr>],
         tmp_dirs = [], enc_calls = [], stderr = []\<rparr> 0 = (Inr 0, w') \<and>
     enc_calls w' = [] \<and>
     artifacts w' = [(1, ''driveway'', ''driveway-0700.mp4'') \<mapsto>
                        \<lparr>f_mtime = 86400 + 3600 * 8 + 400, f_data = [7]\<rparr>]"
  (is "\<exists>w'. hour_body ?cfg ?ff ?now ?d ?cam ?h ?w 0 = _ \<and> _")
proof -
  let ?frames = "[((1, ''driveway'', ''a.jpg''), 86400 + 3600 * 7 + 10)] :: frame list"
  let ?f = "\<lparr>f_mtime = 86400 + 3600 * 8 + 400, f_data = [7]\<rparr>"
  have h1: "\<not> is_current ?now ?d 7"
    by (simp add: is_current_def is_today_def)
  have h2: "select_frames ?w ?now ?d ?cam 7 = Inr ?frames"
    by (simp add: select_frames_later_hour window_end_def h1 hour_window_eq list_jpgs_Listing
        List.map_filter_simps candidate_def endswith_any_def endswith_def JPEG_EXTS_def)
  have h3: "?frames \<noteq> []" by simp
  have h4: "artifacts ?w (?d, ?cam, out_name ?cam 7) = Some ?f"
    by (simp add: out_name_def two_digits_def)
  have h5: "Max (snd ` set ?frames) \<le> f_mtime ?f" by simp
  from skip_up_to_date_past_hour [OF h1 h2 h3 h4 h5, of ?cfg ?ff 0]
  show ?thesis by simp (elim exE conjE, intro exI conjI, assumption+)
qed

lemma stderr_invoked [simp]:
  "stderr (invoked frames verb w) =
     (if verb then stderr w @ [LogFfmpeg (map fst frames)] else stderr w)"
  by (simp add: invoked_def eprint_def)

lemma stderr_announced [simp]:
  "stderr (announced cfg now d camera hour w) =
     (if is_current now d hour \<and> verbose cfg
      then stderr w @ [LogBuildCurrent (out_name camera hour) (window_end now d hour)]
      else stderr w)"
  by (simp add: announced_def)

lemma hour_body_cases [consumes 2, case_names no_frames up_to_date too_few failed built]:
  assumes sel: "select_frames w now d camera hour = Inr frames"
    and run: "hour_body cfg ffmpeg now d camera hour w built = (r, w')"
  obtains
    (no_frames) "frames = []" "r = Inr built" "enc_calls w' = enc_calls w"
      "artifacts w' = artifacts w" "tmp_dirs w' = tmp_dirs w" "dirs w' = dirs w"
      "filter is_LogCamera (stderr w') = filter is_LogCamera (stderr w)"
  | (up_to_date) "frames \<noteq> []" "\<not> must_build w now d camera hour frames"
      "r = Inr built" "enc_calls w' = enc_calls w"
      "artifacts w' = artifacts w" "tmp_dirs w' = tmp_dirs w" "dirs w' = dirs w"
      "filter is_LogCamera (stderr w') = filter is_LogCamera (stderr w)"
  | (too_few) "frames \<noteq> []" "must_build w now d camera hour frames"
      "int (length frames) < min_frames cfg"
      "r = Inr (built + 1)" "enc_calls w' = enc_calls w"
      "artifacts w' = artifacts w" "tmp_dirs w' = tmp_dirs w" "dirs w' = dirs w"
      "filter is_LogCamera (stderr w') = filter is_LogCamera (stderr w)"
  | (failed) e where "frames \<noteq> []" "must_build w now d camera hour frames"
      "\<not> int (length frames) < min_frames cfg"
      "\<forall>f err. ffmpeg (length (enc_calls w)) (map fst frames) \<noteq> Exited 0 (Some f) err"
      "is_Exception e \<or> (\<exists>out. ffmpeg (length (enc_calls w)) (map fst frames) = Interrupted out)"
      "r = (if is_Exception e then Inr built else Inl e)"
      "enc_calls w' = enc_calls w @ [map fst frames]"
      "artifacts w' = artifacts w" "tmp_dirs w' = tmp_dirs w" "dirs w' = dirs w"
      "filter is_LogCamera (stderr w') = filter is_LogCamera (stderr w)"
  | (built) f err where "frames \<noteq> []" "must_build w now d camera hour frames"
      "\<not> int (length frames) < min_frames cfg"
      "ffmpeg (length (enc_calls w)) (map fst frames) = Exited 0 (Some f) err"
      "r = Inr (built + 1)" "enc_calls w' = enc_calls w @ [map fst frames]"
      "artifacts w' = (artifacts w)((d, camera, out_name camera hour) \<mapsto> f)"
      "tmp_dirs w' = tmp_dirs w" "dirs w' = dirs w"
      "filter is_LogCamera (stderr w') = filter is_LogCamera (stderr w)"
proof (cases "frames = []")
  case True
  then show ?thesis
    using no_frames hour_body_no_frames [of w now d camera hour cfg ffmpeg built] sel run
    by (auto split: if_splits)
next
  case ne: False
  have nm: "newest_mtime frames = Some (Max (snd ` set frames))"
    using sel ne by (intro newest_mtime_Max select_frames_sorted)
  show ?thesis
  proof (cases "must_build w now d camera hour frames")
    case False
    then obtain f where "\<not> is_current now d hour"
      "artifacts w (d, camera, out_name camera hour) = Some f"
      "Max (snd ` set frames) \<le> f_mtime f"
      by (auto simp: must_build_def split: option.splits)
    from hour_body_up_to_date [OF sel ne this(1,2) nm this(3), of cfg ffmpeg built]
    show ?thesis using up_to_date ne False run by (auto split: if_splits)
  next
    case mb: True
    then have "is_current now d hour \<or> artifacts w (d, camera, out_name camera hour) = None \<or>
         (\<exists>f n. artifacts w (d, camera, out_name camera hour) = Some f \<and>
                newest_mtime frames = Some n \<and> f_mtime f < n)"
      by (auto simp: must_build_def nm split: option.splits)
    note hb = hour_body_build [OF sel ne this, of cfg ffmpeg built]
    show ?thesis
    proof (rule build_hour_mp4_cases
        [where frames = frames and cfg = cfg and ffmpeg = ffmpeg
           and w = "announced cfg now d camera hour w"
           and dest = "(d, camera, out_name camera hour)"])
      assume "int (length frames) < min_frames cfg"
        and "build_hour_mp4 ffmpeg (d, camera, out_name camera hour) frames cfg
               (announced cfg now d camera hour w) =
             (Inr (), eprint (LogSkipFew (snd (snd (d, camera, out_name camera hour)))
                        (length frames) (min_frames cfg)) (announced cfg now d camera hour w))"
      then show thesis
        using too_few ne mb hb run by simp
    next
      fix e
      assume "\<not> int (length frames) < min_frames cfg"
        and "\<forall>f err. ffmpeg (length (enc_calls (announced cfg now d camera hour w)))
                 (map fst frames) \<noteq> Exited 0 (Some f) err"
        and "build_hour_mp4 ffmpeg (d, camera, out_name camera hour) frames cfg
               (announced cfg now d camera hour w) =
             (Inl e, invoked frames (verbose cfg) (announced cfg now d camera hour w))"
        and "is_Exception e \<or>
             (\<exists>out. ffmpeg (length (enc_calls (announced cfg now d camera hour w)))
                      (map fst frames) = Interrupted out)"
      then show thesis
        using failed [of e] ne mb hb run by (simp split: if_splits)
    next
      fix f err
      assume "\<not> int (length frames) < min_frames cfg"
        and "ffmpeg (length (enc_calls (announced cfg now d camera hour w))) (map fst frames) =
               Exited 0 (Some f) err"
        and "build_hour_mp4 ffmpeg (d, camera, out_name camera hour) frames cfg
               (announced cfg now d camera hour w) =
             (Inr (), eprint (LogOK (d, camera, out_name camera hour) (length frames))
                (invoked frames (verbose cfg) (announced cfg now d camera hour w)
                   \<lparr>artifacts := (artifacts (announced cfg now d camera hour w))
                      ((d, camera, out_name camera hour) \<mapsto> f)\<rparr>))"
      then show thesis
        using built [of f err] ne mb hb run by simp
    qed
  qed
qed

subsection \<open>Minimum frame threshold\<close>

lemma build_hour_mp4_invokes:
  assumes "\<not> int (length frames) < min_frames cfg"
  shows "enc_calls (snd (build_hour_mp4 ffmpeg dest frames cfg w)) = enc_calls w @ [map fst frames]"
  using assms
  by - (rule build_hour_mp4_cases
          [where frames = frames and cfg = cfg and ffmpeg = ffmpeg and w = w and dest = dest],
        auto)

text \<open>
  C7. When the selected frame list of an hour is empty or shorter than the configured
  minimum (30 by default), the hour's iteration runs no encoder, writes no artifact and
  leaves every existing artifact as it is. A frame count equal to the minimum passes
  the threshold: \<open>build_hour_mp4\<close> runs the encoder on it, and so does the hour's
  iteration whenever the list is not empty and the hour is not skipped as up to date.
\<close>

theorem too_few_frames_no_build:
  assumes sel: "select_frames w now d camera hour = Inr frames"
    and run: "hour_body cfg ffmpeg now d camera hour w built = (r, w')"
  shows "MIN_FRAMES_DEFAULT = 30 \<and>
         (frames = [] \<or> int (length frames) < min_frames cfg \<longrightarrow>
            enc_calls w' = enc_calls w \<and> artifacts w' = artifacts w \<and> tmp_dirs w' = tmp_dirs w) \<and>
         (int (length frames) = min_frames cfg \<longrightarrow>
            enc_calls (snd (build_hour_mp4 ffmpeg dest frames cfg w0)) =
              enc_calls w0 @ [map fst frames]) \<and>
         (frames \<noteq> [] \<and> int (length frames) = min_frames cfg \<and>
          must_build w now d camera hour frames \<longrightarrow>
            enc_calls w' = enc_calls w @ [map fst frames])"
proof (intro conjI impI)
  show "MIN_FRAMES_DEFAULT = 30" by (simp add: MIN_FRAMES_DEFAULT_def)
next
  assume "frames = [] \<or> int (length frames) < min_frames cfg"
  with sel run show "enc_calls w' = enc_calls w" "artifacts w' = artifacts w" "tmp_dirs w' = tmp_dirs w"
    by (cases rule: hour_body_cases; simp)+
next
  assume "int (length frames) = min_frames cfg"
  then show "enc_calls (snd (build_hour_mp4 ffmpeg dest frames cfg w0)) =
              enc_calls w0 @ [map fst frames]"
    by (intro build_hour_mp4_invokes) simp
next
  assume "frames \<noteq> [] \<and> int (length frames) = min_frames cfg \<and>
          must_build w now d camera hour frames"
  with sel run show "enc_calls w' = enc_calls w @ [map fst frames]"
    by (cases rule: hour_body_cases; simp)
qed


theorem too_few_frames_no_build_witness:
  "enc_calls (snd (hour_body
      \<lparr>day = None, cameras = [''driveway''], scale_max_width = 1920, crf = 23,
         preset = ''veryfast'', min_frames = 30, verbose = False\<rparr>
      (\<lambda>n m. Exited 0 (Some \<lparr>f_mtime = 500000, f_data = [1]\<rparr>) [])
      (86400 * 5) 1 ''driveway'' 7
      \<lparr>root_exists = True, day_dirs = [Date ''19700102'' 1],
         dirs = (\<lambda>d c. Listing
           [\<lparr>e_name = ''a.jpg'', e_is_file = True, e_stat = Some (86400 + 3600 * 7 + 10)\<rparr>]),
         other_dirs = (\<lambda>name c. Missing),
         artifacts = [(1, ''driveway'', ''driveway-0700.mp4'') \<mapsto> \<lparr>f_mtime = 5, f_data = [7]\<rparr>],
         tmp_dirs = [], enc_calls = [], stderr = []\<rparr> 0)) = [] \<and>
   artifacts (snd (hour_body
      \<lparr>day = None, cameras = [''driveway''], scale_max_width = 1920, crf = 23,
         preset = ''veryfast'', min_frames = 30, verbose = False\<rparr>
      (\<lambda>n m. Exited 0 (Some \<lparr>f_mtime = 500000, f_data = [1]\<rparr>) [])
      (86400 * 5) 1 ''driveway'' 7
      \<lparr>root_exists = True, day_dirs = [Date ''19700102'' 1],
         dirs = (\<lambda>d c. Listing
           [\<lparr>e_name = ''a.jpg'', e_is_file = True, e_stat = Some (86400 + 3600 * 7 + 10)\<rparr>]),
         other_dirs = (\<lambda>name c. Missing),
         artifacts = [(1, ''driveway'', ''driveway-0700.mp4'') \<mapsto> \<lparr>f_mtime = 5, f_data = [7]\<rparr>],
         tmp_dirs = [], enc_calls = [], stderr = []\<rparr> 0)) =
     [(1, ''driveway'', ''driveway-0700.mp4'') \<mapsto> \<lparr>f_mtime = 5, f_data = [7]\<rparr>] \<and>
   enc_calls (snd (hour_body
      \<lparr>day = None, cameras = [''driveway''], scale_max_width = 1920, crf = 23,
         preset = ''veryfast'', min_frames = 1, verbose = False\<rparr>
      (\<lambda>n m. Exited 0 (Some \<lparr>f_mtime = 500000, f_data = [1]\<rparr>) [])
      (86400 * 5) 1 ''driveway'' 7
      \<lparr>root_exists = True, day_dirs = [Date ''19700102'' 1],
         dirs = (\<lambda>d c. Listing
           [\<lparr>e_name = ''a.jpg'', e_is_file = True, e_stat = Some (86400 + 3600 * 7 + 10)\<rparr>]),
         other_dirs = (\<lambda>name c. Missing),
         artifacts = [(1, ''driveway'', ''driveway-0700.mp4'') \<mapsto> \<lparr>f_mtime = 5, f_data = [7]\<rparr>],
         tmp_dirs = [], enc_calls = [], stderr = []\<rparr> 0)) = [[(1, ''driveway'', ''a.jpg'')]]"
  (is "enc_calls (snd (hour_body ?cfg30 ?ff ?now ?d ?cam ?h ?w 0)) = [] \<and> _ \<and>
       enc_calls (snd (hour_body ?cfg1 _ _ _ _ _ _ _)) = _")
proof -
  let ?frames = "[((1, ''driveway'', ''a.jpg''), 86400 + 3600 * 7 + 10)] :: frame list"
  have nc: "\<not> is_current ?now ?d 7"
    by (simp add: is_current_def is_today_def)
  have sel: "select_frames ?w ?now ?d ?cam 7 = Inr ?frames"
    by (simp add: select_frames_later_hour window_end_def nc hour_window_eq list_jpgs_Listing
        List.map_filter_simps candidate_def endswith_any_def endswith_def JPEG_EXTS_def)
  have mb: "must_build ?w ?now ?d ?cam 7 ?frames"
    by (simp add: must_build_def out_name_def two_digits_def)
  have r30: "hour_body ?cfg30 ?ff ?now ?d ?cam 7 ?w 0 =
               (fst (hour_body ?cfg30 ?ff ?now ?d ?cam 7 ?w 0), snd (hour_body ?cfg30 ?ff ?now ?d ?cam 7 ?w 0))"
    by simp
  have r1: "hour_body ?cfg1 ?ff ?now ?d ?cam 7 ?w 0 =
               (fst (hour_body ?cfg1 ?ff ?now ?d ?cam 7 ?w 0), snd (hour_body ?cfg1 ?ff ?now ?d ?cam 7 ?w 0))"
    by simp
  from too_few_frames_no_build [OF sel r30, THEN conjunct2]
    too_few_frames_no_build [OF sel r1, THEN conjunct2] mb
  show ?thesis by simp
qed

subsection \<open>The hour in progress\<close>

lemma select_frames_artifacts [simp]:
  "select_frames (w\<lparr>artifacts := a\<rparr>) now d camera hour = select_frames w now d camera hour"
proof -
  have "dirs (w\<lparr>artifacts := a\<rparr>) = dirs w" by simp
  then show ?thesis unfolding select_frames_def by (simp only:)
qed

lemma is_today_midnight:
  assumes "is_today now d"
  shows "86400 * d \<le> now"
proof -
  have "86400 * (now div 86400) = now - now mod 86400"
    by (simp add: minus_mod_eq_mult_div)
  moreover have "0 \<le> now mod 86400" by simp
  ultimately have "86400 * (now div 86400) \<le> now" by linarith
  then show ?thesis using assms by (simp add: is_today_def)
qed

lemma select_frames_before_end:
  assumes "select_frames w now d camera hour = Inr frames" and "x \<in> set frames"
  shows "snd x < window_end now d hour \<or> (hour = 0 \<and> snd x < 86400 * d)"
proof (cases "hour = 0")
  case False
  then have "list_jpgs_in_range (d, camera) (dirs w d camera)
               (86400 * d + 3600 * int hour) (window_end now d hour) = Inr frames"
    using assms(1) by (simp add: select_frames_later_hour)
  from list_jpgs_Inr(2) [OF this assms(2)] show ?thesis by simp
next
  case True
  from assms(1) obtain a b where ab: "frames = a @ b"
    and a: "a = [] \<or> list_jpgs_in_range (d - 1, camera) (dirs w (d - 1) camera) (86400 * d - 300) (86400 * d) = Inr a"
    and b: "list_jpgs_in_range (d, camera) (dirs w d camera) (86400 * d) (window_end now d 0) = Inr b"
    unfolding True select_frames_midnight
    by (auto split: sum.splits if_splits)
  from assms(2) ab consider "x \<in> set a" | "x \<in> set b" by auto
  then show ?thesis
  proof cases
    case 1
    then have "list_jpgs_in_range (d - 1, camera) (dirs w (d - 1) camera) (86400 * d - 300) (86400 * d) = Inr a"
      using a by auto
    from list_jpgs_Inr(2) [OF this 1] show ?thesis using True by simp
  next
    case 2
    from list_jpgs_Inr(2) [OF b 2] show ?thesis using True by simp
  qed
qed

text \<open>
  C2. When the day is today and the hour is the current hour, the window ends at the
  current timestamp, so every selected frame has a modification time before now (for
  hour 0 also the frames taken from the previous day), and the build goes to the encoder
  whatever artifacts exist and however new they are: for every artifact store \<open>a\<close>,
  the iteration runs the encoder once on the selected frames, unless there are no frames
  or fewer than \<open>min_frames\<close> of them; it never runs or skips because of an artifact.
\<close>

theorem current_hour_always_builds:
  assumes cur: "is_current now d hour"
    and sel: "select_frames w now d camera hour = Inr frames"
  shows "window_end now d hour = now \<and>
         (\<forall>x \<in> set frames. snd x < now) \<and>
         (\<forall>a. enc_calls (snd (hour_body cfg ffmpeg now d camera hour (w\<lparr>artifacts := a\<rparr>) built)) =
                (if frames = [] \<or> int (length frames) < min_frames cfg then enc_calls w
                 else enc_calls w @ [map fst frames]))"
proof (intro conjI impI allI ballI)
  show we: "window_end now d hour = now"
    using cur by (simp add: window_end_def)
  fix x assume "x \<in> set frames"
  from select_frames_before_end [OF sel this]
  show "snd x < now"
    using we cur is_today_midnight [of now d] by (auto simp: is_current_def)
next
  fix a
  let ?w = "w\<lparr>artifacts := a\<rparr>"
  have mb: "must_build ?w now d camera hour frames"
    using cur by (simp add: must_build_def)
  have sel': "select_frames ?w now d camera hour = Inr frames"
    using sel by simp
  have run: "hour_body cfg ffmpeg now d camera hour ?w built =
               (fst (hour_body cfg ffmpeg now d camera hour ?w built),
                snd (hour_body cfg ffmpeg now d camera hour ?w built))"
    by simp
  from sel' run
  show "enc_calls (snd (hour_body cfg ffmpeg now d camera hour ?w built)) =
          (if frames = [] \<or> int (length frames) < min_frames cfg then enc_calls w
           else enc_calls w @ [map fst frames])"
  proof (cases rule: hour_body_cases)
    case no_frames
    then show ?thesis by simp
  next
    case up_to_date
    then show ?thesis using mb by simp
  next
    case too_few
    then show ?thesis by simp
  next
    case (failed e)
    then show ?thesis by simp
  next
    case (built f err)
    then show ?thesis by simp
  qed
qed

theorem current_hour_always_builds_witness:
  "window_end (86400 + 3600 * 7 + 1800) 1 7 = 86400 + 3600 * 7 + 1800 \<and>
   select_frames
      \<lparr>root_exists = True, day_dirs = [Date ''19700102'' 1],
         dirs = (\<lambda>d c. Listing
           [\<lparr>e_name = ''a.jpg'', e_is_file = True, e_stat = Some (86400 + 3600 * 7 + 600)\<rparr>,
            \<lparr>e_name = ''b.jpg'', e_is_file = True, e_stat = Some (86400 + 3600 * 7 + 2400)\<rparr>]),
         other_dirs = (\<lambda>name c. Missing),
         artifacts = [(1, ''driveway'', ''driveway-0700.mp4'') \<mapsto>
                        \<lparr>f_mtime = 86400 * 9, f_data = [7]\<rparr>],
         tmp_dirs = [], enc_calls = [], stderr = []\<rparr>
      (86400 + 3600 * 7 + 1800) 1 ''driveway'' 7 =
     Inr [((1, ''driveway'', ''a.jpg''), 86400 + 3600 * 7 + 600)] \<and>
   enc_calls (snd (hour_body
      \<lparr>day = None, cameras = [''driveway''], scale_max_width = 1920, crf = 23,
         preset = ''veryfast'', min_frames = 1, verbose = False\<rparr>
      (\<lambda>n m. Exited 0 (Some \<lparr>f_mtime = 500000, f_data = [1]\<rparr>) [])
      (86400 + 3600 * 7 + 1800) 1 ''driveway'' 7
      \<lparr>root_exists = True, day_dirs = [Date ''19700102'' 1],
         dirs = (\<lambda>d c. Listing
           [\<lparr>e_name = ''a.jpg'', e_is_file = True, e_stat = Some (86400 + 3600 * 7 + 600)\<rparr>,
            \<lparr>e_name = ''b.jpg'', e_is_file = True, e_stat = Some (86400 + 3600 * 7 + 2400)\<rparr>]),
         other_dirs = (\<lambda>name c. Missing),
         artifacts = [(1, ''driveway'', ''driveway-0700.mp4'') \<mapsto>
                        \<lparr>f_mtime = 86400 * 9, f_data = [7]\<rparr>],
         tmp_dirs = [], enc_calls = [], stderr = []\<rparr> 0)) = [[(1, ''driveway'', ''a.jpg'')]]"
  (is "window_end ?now ?d ?h = _ \<and> select_frames ?w _ _ ?cam _ = Inr ?frames \<and>
       enc_calls (snd (hour_body ?cfg ?ff _ _ _ _ _ 0)) = _")
proof -
  have cur: "is_current ?now ?d 7"
    by (simp add: is_current_def is_today_def current_hour_def)
  have sel: "select_frames ?w ?now ?d ?cam 7 = Inr ?frames"
    using cur
    by (simp add: select_frames_later_hour window_end_def hour_window_eq list_jpgs_Listing
        List.map_filter_simps candidate_def endswith_any_def endswith_def JPEG_EXTS_def)
  have w: "?w\<lparr>artifacts := artifacts ?w\<rparr> = ?w" by simp
  from current_hour_always_builds [OF cur sel, of ?cfg ?ff 0] sel
  show ?thesis
    unfolding w by simp
qed

subsection \<open>Failure isolation and the completion summary\<close>




lemma hour_window_returns:
  assumes "d < MAX_DAY" and "hour \<le> 23"
  shows "hour_window d hour = Inr (start_dt d hour, end_dt_full d hour)"
proof -
  have "86400 * d + 86400 \<le> 86400 * MAX_DAY" using assms(1) by simp
  moreover have "3600 * int hour \<le> 82800" using assms(2) by simp
  ultimately have "end_dt_full d hour < 86400 * (MAX_DAY + 1)"
    by (simp add: hour_window_eq)
  then show ?thesis by (simp add: hour_window_def)
qed


lemma current_hour_le: "current_hour now d \<le> 23"
proof -
  define x where "x = (now mod 86400) div 3600"
  have "now mod 86400 < 86400" by simp
  then have "x < 24" unfolding x_def by simp
  then have "nat x \<le> 23" by linarith
  then show ?thesis unfolding x_def by (simp add: current_hour_def)
qed







text \<open>
  Two more exceptions leave the run outside every \<open>try\<close>. The latest eight-digit
  directory is \<open>20241301\<close>, which is not a date: \<open>yyyymmdd_to_date\<close> raises
  \<open>ValueError\<close>. The day is 9999-12-31: hours 0 to 22 are processed and
  \<open>hour_window\<close> raises \<open>OverflowError\<close> for hour 23.
\<close>

lemma invalid_day_name_escapes:
  "fst (main
       \<lparr>ns_all = False, ns_flag = (\<lambda>s. s = ''camera3''), ns_day = None,
        ns_scale_max_width = 1920, ns_crf = 23, ns_preset = ''veryfast'',
        ns_min_frames = 30, ns_verbose = False\<rparr>
       (Some (\<lambda>n m. Exited 0 (Some \<lparr>f_mtime = 500000, f_data = [1]\<rparr>) []))
       (\<lambda>k. 86400 * 5)
       \<lparr>root_exists = True, day_dirs = [Date ''19700102'' 1, NotADate ''20241301''],
        dirs = (\<lambda>d c. Missing),
        other_dirs = (\<lambda>name c. if name = ''20241301'' \<and> c = ''driveway'' then Listing [] else Missing),
        artifacts = Map.empty, tmp_dirs = [], enc_calls = [], stderr = []\<rparr>) = Inl ValueError"
  by code_simp

lemma last_day_overflow_escapes:
  "fst (main
       \<lparr>ns_all = False, ns_flag = (\<lambda>s. s = ''camera3''), ns_day = Some (Date ''99991231'' 2932896),
        ns_scale_max_width = 1920, ns_crf = 23, ns_preset = ''veryfast'',
        ns_min_frames = 30, ns_verbose = False\<rparr>
       (Some (\<lambda>n m. Exited 0 (Some \<lparr>f_mtime = 500000, f_data = [1]\<rparr>) []))
       (\<lambda>k. 86400 * 5)
       \<lparr>root_exists = True, day_dirs = [Date ''19700102'' 1],
        dirs = (\<lambda>d c. if d = 2932896 \<and> c = ''driveway'' then Listing [] else Missing),
        other_dirs = (\<lambda>name c. Missing),
        artifacts = Map.empty, tmp_dirs = [], enc_calls = [], stderr = []\<rparr>) = Inl OverflowError"
  by code_simp

text \<open>
  C9 fails on the code. A closed hour with one frame and a minimum of 30: the hour is
  skipped as having too few frames, no encoder runs and no artifact is written, and
  the hour is counted all the same: the summary reports one file built.
\<close>

theorem too_few_frames_counted_as_built:
  "fst (main
       \<lparr>ns_all = False, ns_flag = (\<lambda>s. s = ''camera3''), ns_day = Some (Date ''19700102'' 1),
        ns_scale_max_width = 1920, ns_crf = 23, ns_preset = ''veryfast'',
        ns_min_frames = 30, ns_verbose = False\<rparr>
       (Some (\<lambda>n m. Exited 0 (Some \<lparr>f_mtime = 500000, f_data = [1]\<rparr>) []))
       (\<lambda>k. 86400 * 5)
       \<lparr>root_exists = True, day_dirs = [Date ''19700102'' 1],
        dirs = (\<lambda>d c. if d = 1 \<and> c = ''driveway''
                      then Listing [\<lparr>e_name = ''a.jpg'', e_is_file = True,
                                      e_stat = Some (86400 + 3600 * 7 + 1800)\<rparr>]
                      else Missing),
        other_dirs = (\<lambda>name c. Missing),
        artifacts = Map.empty, tmp_dirs = [], enc_calls = [], stderr = []\<rparr>) = Inr 0 \<and>
   stderr (snd (main
       \<lparr>ns_all = False, ns_flag = (\<lambda>s. s = ''camera3''), ns_day = Some (Date ''19700102'' 1),
        ns_scale_max_width = 1920, ns_crf = 23, ns_preset = ''veryfast'',
        ns_min_frames = 30, ns_verbose = False\<rparr>
       (Some (\<lambda>n m. Exited 0 (Some \<lparr>f_mtime = 500000, f_data = [1]\<rparr>) []))
       (\<lambda>k. 86400 * 5)
       \<lparr>root_exists = True, day_dirs = [Date ''19700102'' 1],
        dirs = (\<lambda>d c. if d = 1 \<and> c = ''driveway''
                      then Listing [\<lparr>e_name = ''a.jpg'', e_is_file = True,
                                      e_stat = Some (86400 + 3600 * 7 + 1800)\<rparr>]
                      else Missing),
        other_dirs = (\<lambda>name c. Missing),
        artifacts = Map.empty, tmp_dirs = [], enc_calls = [], stderr = []\<rparr>)) =
     [LogCamera ''driveway'' ''19700102'', LogSkipFew ''driveway-0700.mp4'' 1 30, LogDone 1] \<and>
   enc_calls (snd (main
       \<lparr>ns_all = False, ns_flag = (\<lambda>s. s = ''camera3''), ns_day = Some (Date ''19700102'' 1),
        ns_scale_max_width = 1920, ns_crf = 23, ns_preset = ''veryfast'',
        ns_min_frames = 30, ns_verbose = False\<rparr>
       (Some (\<lambda>n m. Exited 0 (Some \<lparr>f_mtime = 500000, f_data = [1]\<rparr>) []))
       (\<lambda>k. 86400 * 5)
       \<lparr>root_exists = True, day_dirs = [Date ''19700102'' 1],
        dirs = (\<lambda>d c. if d = 1 \<and> c = ''driveway''
                      then Listing [\<lparr>e_name = ''a.jpg'', e_is_file = True,
                                      e_stat = Some (86400 + 3600 * 7 + 1800)\<rparr>]
                      else Missing),
        other_dirs = (\<lambda>name c. Missing),
        artifacts = Map.empty, tmp_dirs = [], enc_calls = [], stderr = []\<rparr>)) = [] \<and>
   artifacts (snd (main
       \<lparr>ns_all = False, ns_flag = (\<lambda>s. s = ''camera3''), ns_day = Some (Date ''19700102'' 1),
        ns_scale_max_width = 1920, ns_crf = 23, ns_preset = ''veryfast'',
        ns_min_frames = 30, ns_verbose = False\<rparr>
       (Some (\<lambda>n m. Exited 0 (Some \<lparr>f_mtime = 500000, f_data = [1]\<rparr>) []))
       (\<lambda>k. 86400 * 5)
       \<lparr>root_exists = True, day_dirs = [Date ''19700102'' 1],
        dirs = (\<lambda>d c. if d = 1 \<and> c = ''driveway''
                      then Listing [\<lparr>e_name = ''a.jpg'', e_is_file = True,
                                      e_stat = Some (86400 + 3600 * 7 + 1800)\<rparr>]
                      else Missing),
        other_dirs = (\<lambda>name c. Missing),
        artifacts = Map.empty, tmp_dirs = [], enc_calls = [], stderr = []\<rparr>)) (1, ''driveway'', ''driveway-0700.mp4'') = None"
  by code_simp

subsection \<open>Re-running the builder\<close>

lemma select_frames_dirs:
  "dirs w1 = dirs w \<Longrightarrow>
   select_frames w1 now d camera hour = select_frames w now d camera hour"
  unfolding select_frames_def by (simp only:)

lemma must_build_artifacts:
  "artifacts w1 = artifacts w \<Longrightarrow>
   must_build w1 now d camera hour frames = must_build w now d camera hour frames"
  unfolding must_build_def by (simp only:)

lemma hours_loop_idle:
  assumes "\<forall>hour \<in> set hours. \<exists>frames. select_frames w now d camera hour = Inr frames \<and>
             (frames = [] \<or> \<not> must_build w now d camera hour frames)"
    and "\<forall>hour \<in> set hours. hour \<le> 23" and dm: "d < MAX_DAY"
  shows "\<exists>w'. hours_loop cfg ffmpeg now d camera hours w built = (Inr built, w') \<and>
           enc_calls w' = enc_calls w \<and> artifacts w' = artifacts w \<and>
           tmp_dirs w' = tmp_dirs w \<and> dirs w' = dirs w"
  using assms(1,2)
proof (induction hours arbitrary: w)
  case Nil
  then show ?case by simp
next
  case (Cons hour hours)
  from Cons.prems(1) obtain frames where sel: "select_frames w now d camera hour = Inr frames"
    and idle: "frames = [] \<or> \<not> must_build w now d camera hour frames"
    by auto
  have hw: "hour_window d hour = Inr (start_dt d hour, end_dt_full d hour)"
    using Cons.prems(2) dm by (intro hour_window_returns) simp_all
  let ?hb = "hour_body cfg ffmpeg now d camera hour w built"
  have run: "?hb = (fst ?hb, snd ?hb)" by simp
  from sel run
  have step: "fst ?hb = Inr built \<and> enc_calls (snd ?hb) = enc_calls w \<and>
              artifacts (snd ?hb) = artifacts w \<and> tmp_dirs (snd ?hb) = tmp_dirs w \<and>
              dirs (snd ?hb) = dirs w"
    using idle by (cases rule: hour_body_cases) simp_all
  have "\<forall>h \<in> set hours. \<exists>frames. select_frames (snd ?hb) now d camera h = Inr frames \<and>
             (frames = [] \<or> \<not> must_build (snd ?hb) now d camera h frames)"
    using Cons.prems(1) step
    by (simp add: select_frames_dirs [of "snd ?hb" w] must_build_artifacts [of "snd ?hb" w])
  moreover have "\<forall>h \<in> set hours. h \<le> 23" using Cons.prems(2) by simp
  ultimately
  obtain w' where "hours_loop cfg ffmpeg now d camera hours (snd ?hb) built = (Inr built, w')"
    and "enc_calls w' = enc_calls (snd ?hb)" and "artifacts w' = artifacts (snd ?hb)"
    and "tmp_dirs w' = tmp_dirs (snd ?hb)" and "dirs w' = dirs (snd ?hb)"
    using Cons.IH [of "snd ?hb"] by blast
  then show ?case
    using step hw by (cases ?hb) simp
qed

text \<open>
  Re-running the builder: when every hour of the day's loop either has no frames or has
  an artifact at least as new as its newest frame (and is not the hour in progress), the
  whole camera-day run invokes no encoder, writes no artifact and returns 0.
\<close>

lemma rerun_performs_no_encoding:
  assumes "\<forall>hour \<in> {0 ..< current_hour now d + 1}.
             \<exists>frames. select_frames w now d camera hour = Inr frames \<and>
               (frames = [] \<or> \<not> must_build w now d camera hour frames)"
    and "MIN_DAY < d" and "d < MAX_DAY"
  shows "\<exists>w'. build_for_camera_day cfg ffmpeg now (Date name d) camera w = (Inr 0, w') \<and>
           enc_calls w' = enc_calls w \<and> artifacts w' = artifacts w \<and> tmp_dirs w' = tmp_dirs w"
proof (cases "dir_exists (dirs w d camera)")
  case False
  then show ?thesis by (simp add: build_for_camera_day_def day_dir_def)
next
  case True
  from assms(1) have "\<forall>hour \<in> set [0 ..< current_hour now d + 1].
             \<exists>frames. select_frames w now d camera hour = Inr frames \<and>
               (frames = [] \<or> \<not> must_build w now d camera hour frames)"
    by simp
  moreover have "\<forall>hour \<in> set [0 ..< current_hour now d + 1]. hour \<le> 23"
    using current_hour_le [of now d] by auto
  ultimately show ?thesis
    using hours_loop_idle [of "[0 ..< current_hour now d + 1]" w now d camera cfg ffmpeg 0]
      True assms(2,3)
    by (auto simp: build_for_camera_day_def day_dir_def yyyymmdd_to_date_def)
qed

end
